theory Spec2Isabelle
  imports Main
begin

section \<open>Strings and the option record\<close>

text \<open>
  JavaScript strings are modelled as \<^typ>\<open>string\<close>.  A string is truthy exactly when
  it is not empty.  Inside \<open>createAgent\<close> an absent (\<open>undefined\<close>) option is only ever
  tested for truthiness or compared with a literal, so it is represented by the empty
  string.
\<close>

definition NL :: char where
  "NL = CHR 0x0A"

text \<open>\<open>Array.prototype.join('\n')\<close> on an array of strings.\<close>

fun join_lines :: "string list \<Rightarrow> string" where
  "join_lines [] = []"
| "join_lines [x] = x"
| "join_lines (x # y # ys) = x @ NL # join_lines (y # ys)"

text \<open>The lines of a text: the pieces between newline characters.\<close>

fun lines_of :: "string \<Rightarrow> string list" where
  "lines_of [] = [[]]"
| "lines_of (c # cs) =
     (if c = NL then [] # lines_of cs
      else (case lines_of cs of [] \<Rightarrow> [[c]] | l # ls \<Rightarrow> (c # l) # ls))"

text \<open>\<open>interface AgentCreationOptions\<close> (cli_create.ts, lines 85-93).\<close>

record AgentCreationOptions =
  agentName :: string
  forceYes :: bool
  model :: string
  apiKey :: string
  project :: string
  region :: string
  language :: string

section \<open>The environment file\<close>

text \<open>
  \<open>generateEnvFile\<close> (cli_create.ts, lines 150-166).  \<open>envLines\<close> is the local array
  \<open>lines\<close> after the four conditional pushes; \<open>generateEnvFile\<close> joins it.
\<close>

definition envLines :: "AgentCreationOptions \<Rightarrow> string list" where
  "envLines options =
     (if apiKey options \<noteq> []
      then [''GOOGLE_API_KEY='' @ apiKey options, ''GOOGLE_GENAI_USE_VERTEXAI=0'']
      else [])
     @ (if project options \<noteq> [] then [''GOOGLE_CLOUD_PROJECT='' @ project options] else [])
     @ (if region options \<noteq> [] then [''GOOGLE_CLOUD_LOCATION='' @ region options] else [])
     @ (if region options \<noteq> [] \<and> project options \<noteq> []
        then [''GOOGLE_GENAI_USE_VERTEXAI=1'']
        else [])"

definition generateEnvFile :: "AgentCreationOptions \<Rightarrow> string" where
  "generateEnvFile options = join_lines (envLines options)"

text \<open>A direct-key line, and the hosted-mode-enabled line.\<close>

definition isKeyLine :: "string \<Rightarrow> bool" where
  "isKeyLine l = (take 15 l = ''GOOGLE_API_KEY='')"

definition hostedLine :: string where
  "hostedLine = ''GOOGLE_GENAI_USE_VERTEXAI=1''"

definition hasKeyLine :: "string \<Rightarrow> bool" where
  "hasKeyLine content = list_ex isKeyLine (lines_of content)"

definition hasHostedLine :: "string \<Rightarrow> bool" where
  "hasHostedLine content = (hostedLine \<in> set (lines_of content))"

definition noNL :: "string \<Rightarrow> bool" where
  "noNL s = (NL \<notin> set s)"

text \<open>
  \<open>String.prototype.trim\<close> as the file templates use it.  A template literal starts
  and ends with ASCII text and line feeds whatever is interpolated in its middle, so
  there \<open>trim\<close> only ever removes ASCII white space (tab, line feed, vertical tab, form
  feed, carriage return, space).  The probes trim the output of a command, which may
  end in any Unicode white space: they use the \<open>trim\<close> of the system, below.
\<close>

definition isWhiteSpace :: "char \<Rightarrow> bool" where
  "isWhiteSpace c = (c \<in> set [CHR 0x09, CHR 0x0A, CHR 0x0B, CHR 0x0C, CHR 0x0D, CHR 0x20])"

definition js_trim :: "string \<Rightarrow> string" where
  "js_trim s = rev (dropWhile isWhiteSpace (rev (dropWhile isWhiteSpace s)))"

section \<open>The file templates\<close>

text \<open>
  \<open>TS_CONFIG\<close>, \<open>PACKAGE_JSON\<close> and \<open>AGENT_TEMPLATE\<close> (cli_create.ts, lines 16-83): each
  template literal is written as the list of its lines, joined, and trimmed as in the
  source.  The escapes of the source (backtick, dollar, brace) stand for the characters
  themselves; \<open>CHR 0x27\<close> is the single quote.
\<close>

definition TS_CONFIG :: string where
  \<open>TS_CONFIG = js_trim (join_lines
     [''{'',
      ''  "compilerOptions": {'',
      ''    "target": "esnext",'',
      ''    "module": "nodenext",'',
      ''    "rootDir": "./",'',
      ''    "outDir": "dist",'',
      ''    "allowUnreachableCode": false,'',
      ''    "allowUnusedLabels": false,'',
      ''    "declaration": true,'',
      ''    "declarationMap": true,'',
      ''    "esModuleInterop": true,'',
      ''    "exactOptionalPropertyTypes": true,'',
      ''    "noEmitOnError": true,'',
      ''    "noFallthroughCasesInSwitch": true,'',
      ''    "noImplicitReturns": true,'',
      ''    "noUncheckedIndexedAccess": true,'',
      ''    "pretty": true,'',
      ''    "skipLibCheck": true,'',
      ''    "sourceMap": true,'',
      ''    "strict": true'',
      ''  }'',
      ''}'',
      []])\<close>

definition PACKAGE_JSON :: "string \<Rightarrow> string \<Rightarrow> string" where
  \<open>PACKAGE_JSON name lang = js_trim (join_lines
     [[],
      ''{'',
      ''  "name": "'' @ name @ ''",'',
      ''  "version": "1.0.0",'',
      ''  "description": "",'',
      ''  "main": "agent.'' @ lang @ ''",'',
      ''  "scripts": {'',
      ''    "web": "npx @google/adk-devtools web",'',
      ''    "cli": "npx @google/adk-devtools run agent.'' @ lang @ ''"'',
      ''  },'',
      ''  "keywords": [],'',
      ''  "author": "",'',
      ''  "license": "ISC"'',
      ''}'',
      []])\<close>

definition AGENT_TEMPLATE :: "string \<Rightarrow> string" where
  \<open>AGENT_TEMPLATE m = js_trim (join_lines
     [[],
      ''import {FunctionTool, LlmAgent} from '@google/adk';'',
      ''import {z} from 'zod';'',
      ''import dotenv from 'dotenv';'',
      [],
      ''dotenv.config();'',
      [],
      ''/* Mock tool implementation */'',
      ''const getCurrentTime = new FunctionTool({'',
      ''  name: 'get_current_time','',
      ''  description: 'Returns the current time in a specified city.','',
      ''  parameters: z.object({'',
      ''    city: z.string().describe("The name of the city for which to retrieve the current time."),'',
      ''  }),'',
      ''  execute: ({city}) => {'',
      ''    return {status: 'success', report: `The current time in ${ city } is 10: 30 AM`};'',
      ''  },'',
      ''});'',
      [],
      ''export const rootAgent = new LlmAgent({'',
      ''  name: 'hello_time_agent','',
      ''  model: '' @ [CHR 0x27] @ m @ [CHR 0x27] @ '','',
      ''  description: 'Tells the current time in a specified city.','',
      ''  instruction: `You are a helpful assistant that tells the current time in a city.'',
      ''                Use the 'getCurrentTime' tool for this purpose.`,'',
      ''  tools: [getCurrentTime],'',
      ''});'',
      []])\<close>

section \<open>The operating system, the user and the effects of a run\<close>

text \<open>
  Everything outside the repository is a parameter of the model: the file system calls
  of \<open>node:fs/promises\<close>, \<open>path.join\<close>, \<open>process.cwd()\<close>, \<open>process.env\<close>, the child
  processes and the prompts of \<open>@clack/prompts\<close>.  A file system call either succeeds
  (\<open>None\<close>) or fails with an error (\<open>Some e\<close>), and in both cases leaves a file system
  behind.  A prompt resolves to the cancel symbol or to a value.  \<open>str_trim\<close> is
  \<open>String.prototype.trim\<close> of the JavaScript engine, on arbitrary text.
\<close>

datatype js_error = JsError string

datatype 'a response = Cancel | Answer 'a

record 'fs os =
  cwd :: string
  path_join :: "string \<Rightarrow> string \<Rightarrow> string"
  getenv :: "string \<Rightarrow> string option"
  fs_access :: "string \<Rightarrow> 'fs \<Rightarrow> js_error option"
  fs_mkdir :: "string \<Rightarrow> 'fs \<Rightarrow> js_error option \<times> 'fs"
  fs_rm :: "string \<Rightarrow> 'fs \<Rightarrow> js_error option \<times> 'fs"
  fs_writeFile :: "string \<Rightarrow> string \<Rightarrow> 'fs \<Rightarrow> js_error option \<times> 'fs"
  fs_readdir :: "string \<Rightarrow> 'fs \<Rightarrow> js_error + string list"
  execSync :: "string \<Rightarrow> js_error + string"
  exec :: "string \<Rightarrow> string \<Rightarrow> 'fs \<Rightarrow> js_error option \<times> 'fs"
  select_bool :: "string \<Rightarrow> (string \<times> bool) list \<Rightarrow> bool response"
  select_str :: "string \<Rightarrow> (string \<times> string) list \<Rightarrow> string response"
  text_prompt :: "string \<Rightarrow> string option \<Rightarrow> string response"
  str_trim :: "string \<Rightarrow> string"

text \<open>
  Every call that leaves the program is recorded, in order, in the trace of the run.
\<close>

datatype event =
    Access string
  | Mkdir string
  | Rm string
  | WriteFile string string
  | Readdir string
  | ExecSync string
  | Exec string string
  | SelectPrompt string "string list"
  | TextPrompt string "string option"
  | ConsoleError string "js_error option"
  | ConsoleLog string

record 'fs state =
  files :: 'fs
  trace :: "event list"

text \<open>
  An asynchronous function returns a value, rejects with an error, or ends the process
  (\<open>process.exit(code)\<close>).
\<close>

datatype 'a outcome = Returns 'a | Throws js_error | Exits nat

type_synonym ('fs, 'a) io = "'fs state \<Rightarrow> 'a outcome \<times> 'fs state"

definition io_return :: "'a \<Rightarrow> ('fs, 'a) io" where
  "io_return a s = (Returns a, s)"

definition io_throw :: "js_error \<Rightarrow> ('fs, 'a) io" where
  "io_throw e s = (Throws e, s)"

definition process_exit :: "nat \<Rightarrow> ('fs, 'a) io" where
  "process_exit c s = (Exits c, s)"

text \<open>\<open>await m\<close> followed by the rest of the function.\<close>

definition io_bind :: "('fs, 'a) io \<Rightarrow> ('a \<Rightarrow> ('fs, 'b) io) \<Rightarrow> ('fs, 'b) io" where
  "io_bind m f s =
     (case m s of
        (Returns a, s') \<Rightarrow> f a s'
      | (Throws e, s') \<Rightarrow> (Throws e, s')
      | (Exits c, s') \<Rightarrow> (Exits c, s'))"

text \<open>\<open>try { m } catch (e) { h e }\<close>: only a thrown error reaches the handler.\<close>

definition try_catch :: "('fs, 'a) io \<Rightarrow> (js_error \<Rightarrow> ('fs, 'a) io) \<Rightarrow> ('fs, 'a) io" where
  "try_catch m h s =
     (case m s of
        (Throws e, s') \<Rightarrow> h e s'
      | (Returns a, s') \<Rightarrow> (Returns a, s')
      | (Exits c, s') \<Rightarrow> (Exits c, s'))"

definition emit :: "event \<Rightarrow> ('fs, unit) io" where
  "emit ev s = (Returns (), s\<lparr>trace := trace s @ [ev]\<rparr>)"

definition console_error :: "string \<Rightarrow> js_error option \<Rightarrow> ('fs, unit) io" where
  "console_error msg e = emit (ConsoleError msg e)"

definition console_log :: "string \<Rightarrow> ('fs, unit) io" where
  "console_log msg = emit (ConsoleLog msg)"

text \<open>A call that changes the file system: the event is recorded, then the call's result decides.\<close>

definition sys_call :: "event \<Rightarrow> ('fs \<Rightarrow> js_error option \<times> 'fs) \<Rightarrow> ('fs, unit) io" where
  "sys_call ev f s =
     (case f (files s) of
        (None, fs') \<Rightarrow> (Returns (), \<lparr>files = fs', trace = trace s @ [ev]\<rparr>)
      | (Some e, fs') \<Rightarrow> (Throws e, \<lparr>files = fs', trace = trace s @ [ev]\<rparr>))"

definition sys_access :: "'fs os \<Rightarrow> string \<Rightarrow> ('fs, unit) io" where
  "sys_access os p = sys_call (Access p) (\<lambda>fs. (fs_access os p fs, fs))"

definition sys_mkdir :: "'fs os \<Rightarrow> string \<Rightarrow> ('fs, unit) io" where
  "sys_mkdir os p = sys_call (Mkdir p) (fs_mkdir os p)"

definition sys_rm :: "'fs os \<Rightarrow> string \<Rightarrow> ('fs, unit) io" where
  "sys_rm os p = sys_call (Rm p) (fs_rm os p)"

definition sys_writeFile :: "'fs os \<Rightarrow> string \<Rightarrow> string \<Rightarrow> ('fs, unit) io" where
  "sys_writeFile os p content = sys_call (WriteFile p content) (fs_writeFile os p content)"

definition sys_exec :: "'fs os \<Rightarrow> string \<Rightarrow> string \<Rightarrow> ('fs, unit) io" where
  "sys_exec os command dir = sys_call (Exec command dir) (exec os command dir)"

definition sys_readdir :: "'fs os \<Rightarrow> string \<Rightarrow> ('fs, string list) io" where
  "sys_readdir os p s =
     (case fs_readdir os p (files s) of
        Inr names \<Rightarrow> (Returns names, s\<lparr>trace := trace s @ [Readdir p]\<rparr>)
      | Inl e \<Rightarrow> (Throws e, s\<lparr>trace := trace s @ [Readdir p]\<rparr>))"

definition sys_execSync :: "'fs os \<Rightarrow> string \<Rightarrow> ('fs, string) io" where
  "sys_execSync os command s =
     (case execSync os command of
        Inr out \<Rightarrow> (Returns out, s\<lparr>trace := trace s @ [ExecSync command]\<rparr>)
      | Inl e \<Rightarrow> (Throws e, s\<lparr>trace := trace s @ [ExecSync command]\<rparr>))"

text \<open>The Interactive Prompt Adapter: \<open>select\<close> and \<open>text\<close> of \<open>@clack/prompts\<close>.\<close>

definition prompt_select_bool ::
  "'fs os \<Rightarrow> string \<Rightarrow> (string \<times> bool) list \<Rightarrow> ('fs, bool response) io" where
  "prompt_select_bool os message opts s =
     (Returns (select_bool os message opts),
      s\<lparr>trace := trace s @ [SelectPrompt message (map fst opts)]\<rparr>)"

definition prompt_select_str ::
  "'fs os \<Rightarrow> string \<Rightarrow> (string \<times> string) list \<Rightarrow> ('fs, string response) io" where
  "prompt_select_str os message opts s =
     (Returns (select_str os message opts),
      s\<lparr>trace := trace s @ [SelectPrompt message (map fst opts)]\<rparr>)"

definition prompt_text :: "'fs os \<Rightarrow> string \<Rightarrow> string option \<Rightarrow> ('fs, string response) io" where
  "prompt_text os message initialValue s =
     (Returns (text_prompt os message initialValue),
      s\<lparr>trace := trace s @ [TextPrompt message initialValue]\<rparr>)"

definition isPrompt :: "event \<Rightarrow> bool" where
  "isPrompt ev = (case ev of SelectPrompt m ls \<Rightarrow> True | TextPrompt m i \<Rightarrow> True | _ \<Rightarrow> False)"

section \<open>The file utilities\<close>

text \<open>
  \<open>isFolderExists\<close>, \<open>createFolder\<close>, \<open>removeFolder\<close>, \<open>listFiles\<close> and \<open>saveToFile\<close>
  (file_utils, lines 12-48 and 72-83).  \<open>saveToFile\<close> is only called on strings here,
  which it writes as they are.
\<close>

definition isFolderExists :: "'fs os \<Rightarrow> string \<Rightarrow> ('fs, bool) io" where
  "isFolderExists os folderPath =
     try_catch (io_bind (sys_access os folderPath) (\<lambda>_. io_return True))
       (\<lambda>e. io_return False)"

definition createFolder :: "'fs os \<Rightarrow> string \<Rightarrow> ('fs, unit) io" where
  "createFolder os folderPath =
     try_catch (sys_mkdir os folderPath)
       (\<lambda>e. console_error (''Failed to create folder '' @ folderPath) (Some e))"

definition removeFolder :: "'fs os \<Rightarrow> string \<Rightarrow> ('fs, unit) io" where
  "removeFolder os folderPath =
     try_catch (sys_rm os folderPath)
       (\<lambda>e. console_error (''Failed to remove folder '' @ folderPath) (Some e))"

definition listFiles :: "'fs os \<Rightarrow> string \<Rightarrow> ('fs, string list) io" where
  "listFiles os folderPath =
     try_catch (sys_readdir os folderPath)
       (\<lambda>e. io_bind (console_error (''Failed to list files in folder '' @ folderPath) (Some e))
          (\<lambda>_. io_return []))"

definition saveToFile :: "'fs os \<Rightarrow> string \<Rightarrow> string \<Rightarrow> ('fs, unit) io" where
  "saveToFile os filePath content =
     try_catch (sys_writeFile os filePath content)
       (\<lambda>e. io_bind (console_error (''Failed to write file '' @ filePath @ '':'') (Some e))
          (\<lambda>_. io_throw e))"

section \<open>The environment probes\<close>

text \<open>
  \<open>getGcpProject\<close> and \<open>getGcpRegion\<close> (cli_create.ts, lines 95-117).  The test
  \<open>if (process.env.X)\<close> holds when the variable is present and not empty; \<open>envTruthy\<close>
  gives the value in that case.
\<close>

definition envTruthy :: "string option \<Rightarrow> string option" where
  "envTruthy v = (case v of None \<Rightarrow> None | Some x \<Rightarrow> if x \<noteq> [] then Some x else None)"

definition getGcpProject :: "'fs os \<Rightarrow> ('fs, string) io" where
  "getGcpProject os =
     (case envTruthy (getenv os ''GOOGLE_CLOUD_PROJECT'') of
        Some v \<Rightarrow> io_return v
      | None \<Rightarrow>
          try_catch
            (io_bind (sys_execSync os ''gcloud config get-value project'')
               (\<lambda>stdout. io_return (str_trim os stdout)))
            (\<lambda>error. io_return []))"

definition getGcpRegion :: "'fs os \<Rightarrow> ('fs, string) io" where
  "getGcpRegion os =
     (case envTruthy (getenv os ''GOOGLE_CLOUD_LOCATION'') of
        Some v \<Rightarrow> io_return v
      | None \<Rightarrow>
          try_catch
            (io_bind (sys_execSync os ''gcloud config get-value compute/region'')
               (\<lambda>stdout. io_return (str_trim os stdout)))
            (\<lambda>error. io_return []))"

section \<open>The scaffolding workflow\<close>

text \<open>
  \<open>generateAgentFolder\<close> (cli_create.ts, lines 119-148), with the two messages it
  builds from the path.
\<close>

definition overwriteQuestion :: "string \<Rightarrow> string" where
  "overwriteQuestion agentDir =
     ''Folder '' @ agentDir @ '' already exists. Would you like to overwrite existing folder?''"

definition existsDiagnostic :: "string \<Rightarrow> string" where
  "existsDiagnostic agentDir = ''Agent directory '' @ agentDir @ '' already exists.''"

definition generateAgentFolder :: "'fs os \<Rightarrow> string \<Rightarrow> bool \<Rightarrow> ('fs, unit) io" where
  "generateAgentFolder os agentDir force =
     io_bind (isFolderExists os agentDir) (\<lambda>found.
       if \<not> found then createFolder os agentDir
       else
         io_bind
           (if force then io_return (Answer True)
            else prompt_select_bool os (overwriteQuestion agentDir)
                   [(''Yes'', True), (''No'', False)])
           (\<lambda>overwriteFolderResponse.
              case overwriteFolderResponse of
                Cancel \<Rightarrow> process_exit 0
              | Answer overwrite \<Rightarrow>
                  if \<not> overwrite
                  then io_bind (console_error (existsDiagnostic agentDir) None)
                         (\<lambda>_. process_exit 0)
                  else io_bind (removeFolder os agentDir) (\<lambda>_. createFolder os agentDir)))"

text \<open>
  The target folder, \<open>path.join(dirname, options.agentName)\<close>, where \<open>dirname\<close> is
  \<open>process.cwd()\<close>; and \<open>generateFiles\<close> (cli_create.ts, lines 168-177).
\<close>

definition agentDirOf :: "'fs os \<Rightarrow> AgentCreationOptions \<Rightarrow> string" where
  "agentDirOf os options = path_join os (cwd os) (agentName options)"

definition generateFiles :: "'fs os \<Rightarrow> AgentCreationOptions \<Rightarrow> ('fs, unit) io" where
  "generateFiles os options =
     (let agentDir = agentDirOf os options in
      io_bind
        (saveToFile os (path_join os agentDir (''agent.'' @ language options))
           (AGENT_TEMPLATE (if model options \<noteq> [] then model options else ''gemini-2.5-flash'')))
        (\<lambda>_. io_bind
           (saveToFile os (path_join os agentDir ''.env'') (generateEnvFile options))
           (\<lambda>_. io_bind
              (saveToFile os (path_join os agentDir ''package.json'')
                 (PACKAGE_JSON (agentName options) (language options)))
              (\<lambda>_. if language options = ''ts''
                    then saveToFile os (path_join os agentDir ''tsconfig.json'') TS_CONFIG
                    else io_return ()))))"

text \<open>
  \<open>createAgent\<close> (cli_create.ts, lines 179-303) is split into its consecutive blocks:
  the model (lines 183-205), the language (207-224), the backend (226-286), the
  installation of the dependencies (289-294) and the summary (296-302).  The first
  three update the option record and return it; \<open>collectOptions\<close> runs them in order.
\<close>

definition resolveModel :: "'fs os \<Rightarrow> AgentCreationOptions \<Rightarrow> ('fs, AgentCreationOptions) io" where
  "resolveModel os options =
     (if model options = [] then
        io_bind
          (if forceYes options then io_return (Answer ''gemini-2.5-flash'')
           else prompt_select_str os ''Choose a model for the root agent''
                  [(''gemini-2.5-flash'', ''gemini-2.5-flash''),
                   (''gemini-2.5-pro'', ''gemini-2.5-pro''),
                   (''gemini-3-flash-preview'', ''gemini-3-flash-preview''),
                   (''gemini-3-pro-preview'', ''gemini-3-pro-preview'')])
          (\<lambda>chosen. case chosen of
               Cancel \<Rightarrow> process_exit 0
             | Answer m \<Rightarrow> io_return (options\<lparr>model := m\<rparr>))
      else io_return options)"

definition resolveLanguage :: "'fs os \<Rightarrow> AgentCreationOptions \<Rightarrow> ('fs, AgentCreationOptions) io" where
  "resolveLanguage os options =
     (if language options \<noteq> ''js'' \<and> language options \<noteq> ''ts'' then
        io_bind
          (if forceYes options then io_return (Answer ''ts'')
           else prompt_select_str os ''Choose a language for the agent''
                  [(''TypeScript'', ''ts''), (''JavaScript'', ''js'')])
          (\<lambda>chosen. case chosen of
               Cancel \<Rightarrow> process_exit 0
             | Answer l \<Rightarrow> io_return (options\<lparr>language := l\<rparr>))
      else io_return options)"

text \<open>
  The project answer goes through \<open>.toString()\<close> before \<open>isCancel\<close> sees it, so a
  cancelled project prompt yields the text of the cancel symbol and the run goes on.
\<close>

definition cancelToString :: string where
  "cancelToString = ''Symbol(clack:cancel)''"

definition responseToString :: "string response \<Rightarrow> string" where
  "responseToString r = (case r of Cancel \<Rightarrow> cancelToString | Answer v \<Rightarrow> v)"

definition resolveBackend :: "'fs os \<Rightarrow> AgentCreationOptions \<Rightarrow> ('fs, AgentCreationOptions) io" where
  "resolveBackend os options =
     (if apiKey options = [] \<and> project options = [] then
        io_bind
          (if forceYes options then io_return (Answer ''googleai'')
           else prompt_select_str os ''Choose a backend''
                  [(''Google AI'', ''googleai''), (''Vertex AI'', ''vertex'')])
          (\<lambda>chosen. case chosen of
               Cancel \<Rightarrow> process_exit 0
             | Answer backend \<Rightarrow>
                 if backend = ''vertex'' then
                   io_bind (getGcpProject os) (\<lambda>defaultProject.
                   io_bind (getGcpRegion os) (\<lambda>defaultRegion.
                   io_bind
                     (if forceYes options then io_return defaultProject
                      else io_bind
                             (prompt_text os ''Enter the Google Cloud Project ID''
                                (Some defaultProject))
                             (\<lambda>r. io_return (responseToString r)))
                     (\<lambda>projectResponse.
                   io_bind
                     (if forceYes options then io_return (Answer defaultRegion)
                      else prompt_text os ''Enter the Google Cloud Region'' (Some defaultRegion))
                     (\<lambda>regionResponse. case regionResponse of
                          Cancel \<Rightarrow> process_exit 0
                        | Answer r \<Rightarrow>
                            io_return (options\<lparr>project := projectResponse, region := r\<rparr>)))))
                 else
                   io_bind
                     (if forceYes options then io_return (Answer [])
                      else prompt_text os ''Enter the Google API Key'' None)
                     (\<lambda>apiKeyResponse. case apiKeyResponse of
                          Cancel \<Rightarrow> process_exit 0
                        | Answer k \<Rightarrow> io_return (options\<lparr>apiKey := k\<rparr>)))
      else io_return options)"

definition tsInstall :: string where
  "tsInstall = ''npm install typescript --save-dev''"

definition mainInstall :: string where
  "mainInstall = ''npm install @google/adk @google/adk-devtools zod@3.25.76 dotenv''"

definition installDependencies ::
  "'fs os \<Rightarrow> AgentCreationOptions \<Rightarrow> string \<Rightarrow> ('fs, unit) io" where
  "installDependencies os options agentDir =
     io_bind
       (if language options = ''ts'' then sys_exec os tsInstall agentDir else io_return ())
       (\<lambda>_. sys_exec os mainInstall agentDir)"

fun logFiles :: "string list \<Rightarrow> ('fs, unit) io" where
  "logFiles [] = io_return ()"
| "logFiles (file # rest) = io_bind (console_log (''  - '' @ file)) (\<lambda>_. logFiles rest)"

definition reportSummary :: "'fs os \<Rightarrow> AgentCreationOptions \<Rightarrow> string \<Rightarrow> ('fs, unit) io" where
  "reportSummary os options agentDir =
     io_bind (listFiles os agentDir) (\<lambda>found.
     io_bind (console_log (NL # ''Created the following files in '' @ agentDir @ '':'')) (\<lambda>_.
     io_bind (logFiles found) (\<lambda>_.
     console_log (''Run 'cd '' @ agentName options
                    @ '' && npm run web' to start the agent in a web interface''))))"

definition collectOptions :: "'fs os \<Rightarrow> AgentCreationOptions \<Rightarrow> ('fs, AgentCreationOptions) io" where
  "collectOptions os options =
     io_bind (resolveModel os options) (\<lambda>options1.
     io_bind (resolveLanguage os options1) (\<lambda>options2.
     resolveBackend os options2))"

definition createAgent :: "'fs os \<Rightarrow> AgentCreationOptions \<Rightarrow> ('fs, unit) io" where
  "createAgent os options0 =
     (let agentDir = agentDirOf os options0 in
      io_bind (generateAgentFolder os agentDir (forceYes options0)) (\<lambda>_.
      io_bind (collectOptions os options0) (\<lambda>options.
      io_bind (generateFiles os options) (\<lambda>_.
      io_bind (installDependencies os options agentDir) (\<lambda>_.
      reportSummary os options agentDir)))))"

section \<open>The command line entry\<close>

text \<open>
  The action of \<open>program.command('create')\<close> (cli, lines 134-162).  The parsed options
  are a dictionary from option names to strings; the action builds an object literal
  and passes it to \<open>createAgent\<close>.  The object is a list of properties, in the order of
  the literal; a missing dictionary entry gives \<open>undefined\<close>.
\<close>

datatype jsval = JUndefined | JString string | JBool bool

definition optionValue :: "(string \<rightharpoonup> string) \<Rightarrow> string \<Rightarrow> jsval" where
  "optionValue opts name = (case opts name of None \<Rightarrow> JUndefined | Some v \<Rightarrow> JString v)"

definition createAction :: "string \<Rightarrow> (string \<rightharpoonup> string) \<Rightarrow> (string \<times> jsval) list" where
  "createAction name opts =
     [(''agentName'', JString name),
      (''model'', optionValue opts ''model''),
      (''apiKey'', optionValue opts ''api_key''),
      (''project'', optionValue opts ''project''),
      (''region'', optionValue opts ''region''),
      (''language'', optionValue opts ''language'')]"

text \<open>
  How \<open>createAgent\<close> reads the object: a property that is absent reads as
  \<open>undefined\<close>; the force flag is tested for truthiness, and an undefined string
  property behaves as the empty string.
\<close>

definition getProperty :: "(string \<times> jsval) list \<Rightarrow> string \<Rightarrow> jsval" where
  "getProperty obj name = (case map_of obj name of None \<Rightarrow> JUndefined | Some v \<Rightarrow> v)"

definition jsTruthy :: "jsval \<Rightarrow> bool" where
  "jsTruthy v = (case v of JUndefined \<Rightarrow> False | JString x \<Rightarrow> x \<noteq> [] | JBool b \<Rightarrow> b)"

definition jsStringOf :: "jsval \<Rightarrow> string" where
  "jsStringOf v = (case v of JString x \<Rightarrow> x | _ \<Rightarrow> [])"

definition asOptions :: "(string \<times> jsval) list \<Rightarrow> AgentCreationOptions" where
  "asOptions obj =
     \<lparr>agentName = jsStringOf (getProperty obj ''agentName''),
      forceYes = jsTruthy (getProperty obj ''forceYes''),
      model = jsStringOf (getProperty obj ''model''),
      apiKey = jsStringOf (getProperty obj ''apiKey''),
      project = jsStringOf (getProperty obj ''project''),
      region = jsStringOf (getProperty obj ''region''),
      language = jsStringOf (getProperty obj ''language'')\<rparr>"

section \<open>Notions and sample inputs for the statements\<close>

text \<open>A computation is quiet for a kind of event when it never adds one to the trace.\<close>

definition quiet :: "(event \<Rightarrow> bool) \<Rightarrow> ('fs, 'a) io \<Rightarrow> bool" where
  "quiet P m = (\<forall>s. filter P (trace (snd (m s))) = filter P (trace s))"

text \<open>
  The calls of the package manager are the \<open>Exec\<close> events.  A kind of event is
  selective when it only holds of prompts and of package manager calls.
\<close>

definition isExec :: "event \<Rightarrow> bool" where
  "isExec ev = (case ev of Exec command dir \<Rightarrow> True | _ \<Rightarrow> False)"

definition selective :: "(event \<Rightarrow> bool) \<Rightarrow> bool" where
  "selective P = (\<forall>ev. P ev \<longrightarrow> isPrompt ev \<or> isExec ev)"

text \<open>
  A small concrete operating system for the sample runs.  The disk is the list of the
  paths below the working directory \<open>/work\<close> with what is stored there; a folder is
  created and a file is written only where the parent folder exists.  Paths are joined
  with a slash and not normalised.  Nothing is set in the environment, \<open>gcloud\<close> is
  not installed, \<open>npm\<close> succeeds, text is trimmed of ASCII white space, and the user
  declines the overwrite question and cancels every other prompt.
\<close>

datatype node = Dir | File string

type_synonym disk = "(string \<times> node) list"

definition parentOf :: "string \<Rightarrow> string" where
  "parentOf p = rev (drop 1 (dropWhile (\<lambda>c. c \<noteq> CHR ''/'') (rev p)))"

definition parentExists :: "disk \<Rightarrow> string \<Rightarrow> bool" where
  "parentExists d p = (parentOf p = ''/work'' \<or> map_of d (parentOf p) = Some Dir)"

definition demoOs :: "disk os" where
  "demoOs =
     \<lparr>cwd = ''/work'',
      path_join = (\<lambda>a b. a @ ''/'' @ b),
      getenv = (\<lambda>name. None),
      fs_access = (\<lambda>p d. if map_of d p = None then Some (JsError ''ENOENT'') else None),
      fs_mkdir = (\<lambda>p d. if map_of d p \<noteq> None then (Some (JsError ''EEXIST''), d)
                         else if parentExists d p then (None, (p, Dir) # d)
                         else (Some (JsError ''ENOENT''), d)),
      fs_rm = (\<lambda>p d. if map_of d p = None then (Some (JsError ''ENOENT''), d)
                      else (None, filter (\<lambda>entry. take (length p) (fst entry) \<noteq> p) d)),
      fs_writeFile = (\<lambda>p c d. if map_of d p = Some Dir then (Some (JsError ''EISDIR''), d)
                             else if parentExists d p
                             then (None, (p, File c) # filter (\<lambda>entry. fst entry \<noteq> p) d)
                             else (Some (JsError ''ENOENT''), d)),
      fs_readdir = (\<lambda>p d. if map_of d p = None then Inl (JsError ''ENOENT'')
                           else Inr (map (\<lambda>entry. drop (length p + 1) (fst entry))
                                  (filter (\<lambda>entry. take (length p + 1) (fst entry) = p @ ''/'') d))),
      execSync = (\<lambda>command. Inl (JsError ''gcloud: command not found'')),
      exec = (\<lambda>command dir d. (None, d)),
      select_bool = (\<lambda>message opts. Answer False),
      select_str = (\<lambda>message opts. Cancel),
      text_prompt = (\<lambda>message initialValue. Cancel),
      str_trim = js_trim\<rparr>"

text \<open>The same system on a read-only disk: creating, removing and writing fail.\<close>

definition readOnlyOs :: "disk os" where
  "readOnlyOs =
     demoOs\<lparr>fs_mkdir := (\<lambda>p d. (Some (JsError ''EACCES''), d)),
            fs_rm := (\<lambda>p d. (Some (JsError ''EACCES''), d)),
            fs_writeFile := (\<lambda>p c d. (Some (JsError ''EACCES''), d))\<rparr>"

text \<open>
  The same system where both variables are set to the empty string and \<open>gcloud\<close>
  prints a configured value followed by a newline.
\<close>

definition emptyEnvOs :: "disk os" where
  "emptyEnvOs =
     demoOs\<lparr>getenv := (\<lambda>name. Some []),
            execSync := (\<lambda>command. Inr (''acme-dev'' @ [NL]))\<rparr>"

text \<open>The same system where both variables are set to a value.\<close>

definition setEnvOs :: "disk os" where
  "setEnvOs = demoOs\<lparr>getenv := (\<lambda>name. Some ''from-env'')\<rparr>"

text \<open>The same system where every call of the package manager fails.\<close>

definition npmFailsOs :: "disk os" where
  "npmFailsOs = demoOs\<lparr>exec := (\<lambda>command dir d. (Some (JsError ''npm: exit code 1''), d))\<rparr>"

definition emptyDisk :: "disk state" where
  "emptyDisk = \<lparr>files = [], trace = []\<rparr>"

text \<open>A disk that holds the target folder of scenario A, still empty.\<close>

definition folderDisk :: "disk state" where
  "folderDisk = \<lparr>files = [(''/work/weather_bot'', Dir)], trace = []\<rparr>"


text \<open>Scenario A (nothing supplied, force mode) and the same request without force mode.\<close>

definition scenarioA :: AgentCreationOptions where
  "scenarioA =
     \<lparr>agentName = ''weather_bot'', forceYes = True, model = [], apiKey = [], project = [],
      region = [], language = []\<rparr>"


text \<open>
  A request that supplies a key, a project and a region, as
  \<open>create bot --model gemini-2.5-pro --language ts --api_key k --project p --region r\<close>
  does.
\<close>

definition bothModes :: AgentCreationOptions where
  "bothModes =
     \<lparr>agentName = ''bot'', forceYes = False, model = ''gemini-2.5-pro'', apiKey = ''k'',
      project = ''p'', region = ''r'', language = ''ts''\<rparr>"

text \<open>
  Scenario D (project and region supplied, no key, force mode), for any name, model and
  language; scenario A as the collector resolves it; and scenario A with only a project.
\<close>

definition scenarioD :: "string \<Rightarrow> string \<Rightarrow> string \<Rightarrow> AgentCreationOptions" where
  "scenarioD name m lang =
     \<lparr>agentName = name, forceYes = True, model = m, apiKey = [], project = ''acme'',
      region = ''us-central1'', language = lang\<rparr>"

definition resolvedA :: AgentCreationOptions where
  "resolvedA = scenarioA\<lparr>model := ''gemini-2.5-flash'', language := ''ts''\<rparr>"

definition projectOnly :: AgentCreationOptions where
  "projectOnly = scenarioA\<lparr>project := ''acme''\<rparr>"

text \<open>
  A request whose key holds a newline followed by the text of the hosted-mode-enabled
  line, and that has neither project nor region.
\<close>

definition injectedKey :: AgentCreationOptions where
  "injectedKey =
     \<lparr>agentName = ''bot'', forceYes = False, model = ''gemini-2.5-pro'',
      apiKey = ''k'' @ [NL] @ ''GOOGLE_GENAI_USE_VERTEXAI=1'', project = [], region = [],
      language = ''ts''\<rparr>"

text \<open>
  The claims about the files and about the installation, in their own words: the
  candidate files in order, each handed to the file system once, stopping at the first
  write that fails (which \<open>saveToFile\<close> logs); and the install commands in order, each
  handed to the package manager once in a folder, stopping at the first that fails.
\<close>

definition candidateFiles :: "'fs os \<Rightarrow> AgentCreationOptions \<Rightarrow> (string \<times> string) list" where
  "candidateFiles os options =
     [(path_join os (agentDirOf os options) (''agent.'' @ language options),
       AGENT_TEMPLATE (if model options \<noteq> [] then model options else ''gemini-2.5-flash'')),
      (path_join os (agentDirOf os options) ''.env'', generateEnvFile options),
      (path_join os (agentDirOf os options) ''package.json'',
       PACKAGE_JSON (agentName options) (language options))]
     @ (if language options = ''ts''
        then [(path_join os (agentDirOf os options) ''tsconfig.json'', TS_CONFIG)]
        else [])"

fun writeInOrder :: "'fs os \<Rightarrow> (string \<times> string) list \<Rightarrow> ('fs, unit) io" where
  "writeInOrder os [] s = (Returns (), s)"
| "writeInOrder os ((p, c) # rest) s =
     (case fs_writeFile os p c (files s) of
        (None, fs') \<Rightarrow> writeInOrder os rest \<lparr>files = fs', trace = trace s @ [WriteFile p c]\<rparr>
      | (Some e, fs') \<Rightarrow>
          (Throws e,
           \<lparr>files = fs',
            trace = trace s
              @ [WriteFile p c, ConsoleError (''Failed to write file '' @ p @ '':'') (Some e)]\<rparr>))"

definition installCommands :: "AgentCreationOptions \<Rightarrow> string list" where
  "installCommands options =
     (if language options = ''ts'' then [tsInstall] else []) @ [mainInstall]"

fun execInOrder :: "'fs os \<Rightarrow> string list \<Rightarrow> string \<Rightarrow> ('fs, unit) io" where
  "execInOrder os [] dir s = (Returns (), s)"
| "execInOrder os (command # rest) dir s =
     (case exec os command dir (files s) of
        (None, fs') \<Rightarrow>
          execInOrder os rest dir \<lparr>files = fs', trace = trace s @ [Exec command dir]\<rparr>
      | (Some e, fs') \<Rightarrow> (Throws e, \<lparr>files = fs', trace = trace s @ [Exec command dir]\<rparr>))"

text \<open>
  The disk and the trace after the folder of scenario A was created in the empty
  working directory and its four files were written.
\<close>

definition writtenDisk :: "disk state" where
  "writtenDisk =
     \<lparr>files = [(''/work/weather_bot/tsconfig.json'', File TS_CONFIG),
               (''/work/weather_bot/package.json'', File (PACKAGE_JSON ''weather_bot'' ''ts'')),
               (''/work/weather_bot/.env'', File []),
               (''/work/weather_bot/agent.ts'', File (AGENT_TEMPLATE ''gemini-2.5-flash'')),
               (''/work/weather_bot'', Dir)],
      trace = [Access ''/work/weather_bot'', Mkdir ''/work/weather_bot'',
               WriteFile ''/work/weather_bot/agent.ts'' (AGENT_TEMPLATE ''gemini-2.5-flash''),
               WriteFile ''/work/weather_bot/.env'' [],
               WriteFile ''/work/weather_bot/package.json'' (PACKAGE_JSON ''weather_bot'' ''ts''),
               WriteFile ''/work/weather_bot/tsconfig.json'' TS_CONFIG]\<rparr>"

section \<open>Lines of a joined text\<close>

lemma lines_of_noNL: "NL \<notin> set x \<Longrightarrow> lines_of x = [x]"
  by (induction x) auto

lemma lines_of_append_NL:
  "NL \<notin> set x \<Longrightarrow> lines_of (x @ NL # rest) = x # lines_of rest"
  by (induction x) auto

lemma lines_of_join_lines:
  "xs \<noteq> [] \<Longrightarrow> \<forall>x \<in> set xs. NL \<notin> set x \<Longrightarrow> lines_of (join_lines xs) = xs"
proof (induction xs rule: join_lines.induct)
  case 1
  then show ?case by simp
next
  case (2 x)
  then show ?case by (simp add: lines_of_noNL)
next
  case (3 x y ys)
  then show ?case by (simp add: lines_of_append_NL)
qed

lemma NL_notin_literals:
  "NL \<notin> set ''GOOGLE_API_KEY=''" "NL \<notin> set ''GOOGLE_GENAI_USE_VERTEXAI=0''"
  "NL \<notin> set ''GOOGLE_CLOUD_PROJECT=''" "NL \<notin> set ''GOOGLE_CLOUD_LOCATION=''"
  "NL \<notin> set ''GOOGLE_GENAI_USE_VERTEXAI=1''"
  by (simp_all add: NL_def)

lemma envLines_noNL:
  assumes "noNL (apiKey options)" "noNL (project options)" "noNL (region options)"
  shows "\<forall>x \<in> set (envLines options). NL \<notin> set x"
  using assms NL_notin_literals by (auto simp: envLines_def noNL_def)

lemma lines_of_generateEnvFile:
  assumes "noNL (apiKey options)" "noNL (project options)" "noNL (region options)"
  shows "lines_of (generateEnvFile options) = (if envLines options = [] then [[]] else envLines options)"
  using envLines_noNL[OF assms] by (simp add: generateEnvFile_def lines_of_join_lines)

lemma key_in_envLines: "list_ex isKeyLine (envLines options) \<longleftrightarrow> apiKey options \<noteq> []"
  by (simp add: envLines_def isKeyLine_def)

lemma hosted_in_envLines:
  "hostedLine \<in> set (envLines options) \<longleftrightarrow> project options \<noteq> [] \<and> region options \<noteq> []"
  by (auto simp: envLines_def hostedLine_def)

lemma envLines_Nil: "envLines options = [] \<longleftrightarrow> apiKey options = [] \<and> project options = [] \<and> region options = []"
  by (auto simp: envLines_def)

lemma hasKeyLine_generateEnvFile:
  assumes "noNL (apiKey options)" "noNL (project options)" "noNL (region options)"
  shows "hasKeyLine (generateEnvFile options) \<longleftrightarrow> apiKey options \<noteq> []"
  using key_in_envLines[of options] envLines_Nil[of options]
  by (auto simp: hasKeyLine_def lines_of_generateEnvFile[OF assms] isKeyLine_def)

lemma hasHostedLine_generateEnvFile:
  assumes "noNL (apiKey options)" "noNL (project options)" "noNL (region options)"
  shows "hasHostedLine (generateEnvFile options) \<longleftrightarrow> project options \<noteq> [] \<and> region options \<noteq> []"
  using hosted_in_envLines[of options] envLines_Nil[of options]
  by (auto simp: hasHostedLine_def lines_of_generateEnvFile[OF assms] hostedLine_def)

section \<open>What the file utilities and the probes compute\<close>

lemma io_bind_return [simp]: "io_bind (io_return a) f s = f a s"
  by (simp add: io_bind_def io_return_def)

lemma io_bind_exit [simp]: "io_bind (process_exit c) f s = (Exits c, s)"
  by (simp add: io_bind_def process_exit_def)

lemma io_bind_return_fun [simp]: "io_bind (io_return a) f = f a"
  by (rule ext) (simp add: io_bind_def io_return_def)

lemma io_bind_ReturnsE:
  assumes "io_bind m f s = (Returns b, s')"
  obtains a s1 where "m s = (Returns a, s1)" "f a s1 = (Returns b, s')"
  using assms by (auto simp: io_bind_def split: prod.splits outcome.splits)

lemma createFolder_eq:
  "createFolder os p s =
     (case fs_mkdir os p (files s) of
        (None, fs') \<Rightarrow> (Returns (), \<lparr>files = fs', trace = trace s @ [Mkdir p]\<rparr>)
      | (Some e, fs') \<Rightarrow>
          (Returns (), \<lparr>files = fs',
             trace = trace s @ [Mkdir p, ConsoleError (''Failed to create folder '' @ p) (Some e)]\<rparr>))"
  by (simp add: createFolder_def try_catch_def sys_mkdir_def sys_call_def console_error_def
      emit_def split: prod.splits option.splits)

lemma removeFolder_eq:
  "removeFolder os p s =
     (case fs_rm os p (files s) of
        (None, fs') \<Rightarrow> (Returns (), \<lparr>files = fs', trace = trace s @ [Rm p]\<rparr>)
      | (Some e, fs') \<Rightarrow>
          (Returns (), \<lparr>files = fs',
             trace = trace s @ [Rm p, ConsoleError (''Failed to remove folder '' @ p) (Some e)]\<rparr>))"
  by (simp add: removeFolder_def try_catch_def sys_rm_def sys_call_def console_error_def
      emit_def split: prod.splits option.splits)

lemma saveToFile_eq:
  "saveToFile os p c s =
     (case fs_writeFile os p c (files s) of
        (None, fs') \<Rightarrow> (Returns (), \<lparr>files = fs', trace = trace s @ [WriteFile p c]\<rparr>)
      | (Some e, fs') \<Rightarrow>
          (Throws e, \<lparr>files = fs',
             trace = trace s @ [WriteFile p c, ConsoleError (''Failed to write file '' @ p @ '':'') (Some e)]\<rparr>))"
  by (simp add: saveToFile_def try_catch_def sys_writeFile_def sys_call_def console_error_def
      emit_def io_bind_def io_throw_def split: prod.splits option.splits)

lemma isFolderExists_eq:
  "isFolderExists os p s =
     (Returns (fs_access os p (files s) = None), \<lparr>files = files s, trace = trace s @ [Access p]\<rparr>)"
  by (simp add: isFolderExists_def try_catch_def sys_access_def sys_call_def io_bind_def
      io_return_def split: prod.splits option.splits)

lemma listFiles_eq:
  "listFiles os p s =
     (case fs_readdir os p (files s) of
        Inr names \<Rightarrow> (Returns names, s\<lparr>trace := trace s @ [Readdir p]\<rparr>)
      | Inl e \<Rightarrow>
          (Returns [], s\<lparr>trace := trace s @ [Readdir p,
              ConsoleError (''Failed to list files in folder '' @ p) (Some e)]\<rparr>))"
  by (simp add: listFiles_def try_catch_def sys_readdir_def console_error_def
      emit_def io_bind_def io_return_def split: sum.splits)

lemma probe_eq:
  "try_catch (io_bind (sys_execSync os cmd) (\<lambda>stdout. io_return (str_trim os stdout)))
            (\<lambda>error. io_return []) s =
   (Returns (case execSync os cmd of Inr out \<Rightarrow> str_trim os out | Inl e \<Rightarrow> []),
    s\<lparr>trace := trace s @ [ExecSync cmd]\<rparr>)"
  by (simp add: try_catch_def sys_execSync_def io_bind_def io_return_def split: sum.splits)

lemma saveToFile_cases:
  obtains (ok) fs' where "saveToFile os p c s = (Returns (), \<lparr>files = fs', trace = trace s @ [WriteFile p c]\<rparr>)"
  | (fail) e s' where "saveToFile os p c s = (Throws e, s')"
proof (cases "fs_writeFile os p c (files s)")
  case (Pair r f)
  show ?thesis
  proof (cases r)
    case None
    with Pair have "saveToFile os p c s = (Returns (), \<lparr>files = f, trace = trace s @ [WriteFile p c]\<rparr>)"
      by (simp add: saveToFile_eq)
    then show ?thesis by (rule ok)
  next
    case (Some e)
    with Pair have "\<exists>s'. saveToFile os p c s = (Throws e, s')"
      by (simp add: saveToFile_eq)
    then show ?thesis using fail by blast
  qed
qed

lemma save_seq_trace:
  assumes "fst (io_bind (saveToFile os p1 c1) (\<lambda>_. io_bind (saveToFile os p2 c2)
             (\<lambda>_. io_bind (saveToFile os p3 c3)
                (\<lambda>_. if b then saveToFile os p4 c4 else io_return ()))) s) = Returns ()"
  shows "trace (snd (io_bind (saveToFile os p1 c1) (\<lambda>_. io_bind (saveToFile os p2 c2)
             (\<lambda>_. io_bind (saveToFile os p3 c3)
                (\<lambda>_. if b then saveToFile os p4 c4 else io_return ()))) s)) =
         trace s @ [WriteFile p1 c1, WriteFile p2 c2, WriteFile p3 c3]
           @ (if b then [WriteFile p4 c4] else [])"
proof (cases rule: saveToFile_cases[of os p1 c1 s])
  case (fail e s')
  with assms show ?thesis by (simp add: io_bind_def)
next
  case (ok f1)
  let ?s1 = "\<lparr>files = f1, trace = trace s @ [WriteFile p1 c1]\<rparr>"
  show ?thesis
  proof (cases rule: saveToFile_cases[of os p2 c2 ?s1])
    case (fail e s')
    with assms ok show ?thesis by (simp add: io_bind_def)
  next
    case ok2: (ok f2)
    let ?s2 = "\<lparr>files = f2, trace = trace ?s1 @ [WriteFile p2 c2]\<rparr>"
    show ?thesis
    proof (cases rule: saveToFile_cases[of os p3 c3 ?s2])
      case (fail e s')
      with assms ok ok2 show ?thesis by (simp add: io_bind_def)
    next
      case ok3: (ok f3)
      let ?s3 = "\<lparr>files = f3, trace = trace ?s2 @ [WriteFile p3 c3]\<rparr>"
      show ?thesis
      proof (cases b)
        case False
        with ok ok2 ok3 show ?thesis by (simp add: io_bind_def io_return_def)
      next
        case True
        show ?thesis
        proof (cases rule: saveToFile_cases[of os p4 c4 ?s3])
          case (fail e s')
          with assms ok ok2 ok3 True show ?thesis by (simp add: io_bind_def)
        next
          case ok4: (ok f4)
          with ok ok2 ok3 True show ?thesis by (simp add: io_bind_def)
        qed
      qed
    qed
  qed
qed

lemma save_seq_ok:
  assumes "\<forall>p c fs. fst (fs_writeFile os p c fs) = None"
  shows "fst (io_bind (saveToFile os p1 c1) (\<lambda>_. io_bind (saveToFile os p2 c2)
             (\<lambda>_. io_bind (saveToFile os p3 c3)
                (\<lambda>_. if b then saveToFile os p4 c4 else io_return ()))) s) = Returns ()"
proof -
  have w: "\<exists>s'. saveToFile os p c t = (Returns (), s')" for p c and t :: "'a state"
  proof (cases rule: saveToFile_cases[of os p c t])
    case (ok f)
    then show ?thesis by blast
  next
    case (fail e s')
    moreover have "fst (fs_writeFile os p c (files t)) = None" using assms by blast
    ultimately show ?thesis
      by (cases "fs_writeFile os p c (files t)") (simp add: saveToFile_eq)
  qed
  obtain s1 where s1: "saveToFile os p1 c1 s = (Returns (), s1)" using w by blast
  obtain s2 where s2: "saveToFile os p2 c2 s1 = (Returns (), s2)" using w by blast
  obtain s3 where s3: "saveToFile os p3 c3 s2 = (Returns (), s3)" using w by blast
  obtain s4 where s4: "saveToFile os p4 c4 s3 = (Returns (), s4)" using w by blast
  show ?thesis
    using s1 s2 s3 s4 by (simp add: io_bind_def io_return_def)
qed

lemma sys_exec_cases:
  obtains (ok) fs' where "sys_exec os cmd dir s = (Returns (), \<lparr>files = fs', trace = trace s @ [Exec cmd dir]\<rparr>)"
  | (fail) e fs' where "fst (exec os cmd dir (files s)) = Some e"
      "sys_exec os cmd dir s = (Throws e, \<lparr>files = fs', trace = trace s @ [Exec cmd dir]\<rparr>)"
proof (cases "exec os cmd dir (files s)")
  case (Pair r f)
  show ?thesis
  proof (cases r)
    case None
    with Pair have "sys_exec os cmd dir s = (Returns (), \<lparr>files = f, trace = trace s @ [Exec cmd dir]\<rparr>)"
      by (simp add: sys_exec_def sys_call_def)
    then show ?thesis by (rule ok)
  next
    case (Some e)
    with Pair have "sys_exec os cmd dir s = (Throws e, \<lparr>files = f, trace = trace s @ [Exec cmd dir]\<rparr>)"
      "fst (exec os cmd dir (files s)) = Some e"
      by (simp_all add: sys_exec_def sys_call_def)
    then show ?thesis using fail by blast
  qed
qed

lemma install_trace:
  assumes "fst (installDependencies os options dir s) = Returns ()"
  shows "trace (snd (installDependencies os options dir s)) =
         trace s @ (if language options = ''ts'' then [Exec tsInstall dir] else [])
           @ [Exec mainInstall dir]"
proof (cases "language options = ''ts''")
  case False
  then have eq: "installDependencies os options dir s = sys_exec os mainInstall dir s"
    by (simp add: installDependencies_def)
  show ?thesis
    by (cases rule: sys_exec_cases[of os mainInstall dir s]) (use assms eq False in auto)
next
  case True
  show ?thesis
  proof (cases rule: sys_exec_cases[of os tsInstall dir s])
    case (fail e f)
    with assms True show ?thesis by (simp add: installDependencies_def io_bind_def)
  next
    case (ok f1)
    let ?s1 = "\<lparr>files = f1, trace = trace s @ [Exec tsInstall dir]\<rparr>"
    from ok True have eq: "installDependencies os options dir s = sys_exec os mainInstall dir ?s1"
      by (simp add: installDependencies_def io_bind_def)
    show ?thesis
      by (cases rule: sys_exec_cases[of os mainInstall dir ?s1]) (use assms eq True in auto)
  qed
qed

lemma install_ok:
  assumes "\<forall>c d fs. fst (exec os c d fs) = None"
  shows "fst (installDependencies os options dir s) = Returns ()"
proof -
  have w: "\<exists>s'. sys_exec os c dir t = (Returns (), s')" for c and t :: "'a state"
  proof (cases rule: sys_exec_cases[of os c dir t])
    case (ok f)
    then show ?thesis by blast
  next
    case (fail e f)
    with assms show ?thesis by simp
  qed
  obtain s1 where s1: "sys_exec os tsInstall dir s = (Returns (), s1)" using w by blast
  obtain s2 where s2: "sys_exec os mainInstall dir s1 = (Returns (), s2)" using w by blast
  obtain s3 where s3: "sys_exec os mainInstall dir s = (Returns (), s3)" using w by blast
  show ?thesis using s1 s2 s3
    by (simp add: installDependencies_def io_bind_def io_return_def)
qed

lemma probe_cases:
  assumes def: "\<And>s. probe s = (case envTruthy (getenv os name) of
        Some v \<Rightarrow> io_return v s
      | None \<Rightarrow> try_catch (io_bind (sys_execSync os cmd) (\<lambda>stdout. io_return (str_trim os stdout)))
            (\<lambda>error. io_return []) s)"
  shows "(\<forall>v. getenv os name = Some v \<and> v \<noteq> [] \<longrightarrow> probe s = (Returns v, s))
   \<and> (\<forall>out. (getenv os name = None \<or> getenv os name = Some []) \<and> execSync os cmd = Inr out \<longrightarrow>
         probe s = (Returns (str_trim os out), \<lparr>files = files s, trace = trace s @ [ExecSync cmd]\<rparr>))
   \<and> (\<forall>e. (getenv os name = None \<or> getenv os name = Some []) \<and> execSync os cmd = Inl e \<longrightarrow>
         probe s = (Returns [], \<lparr>files = files s, trace = trace s @ [ExecSync cmd]\<rparr>))
   \<and> (\<exists>v. fst (probe s) = Returns v)"
  by (auto simp: def envTruthy_def probe_eq io_return_def split: option.splits sum.splits)

lemma getGcpProject_returns: "\<exists>v s'. getGcpProject os s = (Returns v, s')"
  by (simp add: getGcpProject_def probe_eq io_return_def split: option.splits)

lemma getGcpRegion_returns: "\<exists>v s'. getGcpRegion os s = (Returns v, s')"
  by (simp add: getGcpRegion_def probe_eq io_return_def split: option.splits)

section \<open>Computations that add no event of a kind\<close>

lemma quiet_return [simp]: "quiet P (io_return a)"
  by (simp add: quiet_def io_return_def)

lemma quiet_throw [simp]: "quiet P (io_throw e)"
  by (simp add: quiet_def io_throw_def)

lemma quiet_exit [simp]: "quiet P (process_exit c)"
  by (simp add: quiet_def process_exit_def)

lemma quiet_bind_post:
  assumes m: "quiet P m"
    and post: "\<And>s a s'. m s = (Returns a, s') \<Longrightarrow> Q a"
    and f: "\<And>a. Q a \<Longrightarrow> quiet P (f a)"
  shows "quiet P (io_bind m f)"
  unfolding quiet_def
proof
  fix s
  obtain r s1 where ms: "m s = (r, s1)" by (cases "m s")
  from m ms have t1: "filter P (trace s1) = filter P (trace s)"
    by (metis quiet_def snd_conv)
  show "filter P (trace (snd (io_bind m f s))) = filter P (trace s)"
  proof (cases r)
    case (Returns a)
    with ms post have "Q a" by blast
    then have "quiet P (f a)" by (rule f)
    then have "filter P (trace (snd (f a s1))) = filter P (trace s1)"
      by (simp add: quiet_def)
    with ms Returns t1 show ?thesis by (simp add: io_bind_def)
  next
    case (Throws e)
    with ms t1 show ?thesis by (simp add: io_bind_def)
  next
    case (Exits c)
    with ms t1 show ?thesis by (simp add: io_bind_def)
  qed
qed

lemma quiet_bind:
  "quiet P m \<Longrightarrow> (\<And>a. quiet P (f a)) \<Longrightarrow> quiet P (io_bind m f)"
  by (rule quiet_bind_post[where Q = "\<lambda>_. True"]) simp_all

lemma quiet_try:
  assumes m: "quiet P m" and h: "\<And>e. quiet P (h e)"
  shows "quiet P (try_catch m h)"
  unfolding quiet_def
proof
  fix s
  obtain r s1 where ms: "m s = (r, s1)" by (cases "m s")
  from m ms have t1: "filter P (trace s1) = filter P (trace s)"
    by (metis quiet_def snd_conv)
  show "filter P (trace (snd (try_catch m h s))) = filter P (trace s)"
  proof (cases r)
    case (Throws e)
    from h have "filter P (trace (snd (h e s1))) = filter P (trace s1)"
      by (simp add: quiet_def)
    with ms Throws t1 show ?thesis by (simp add: try_catch_def)
  qed (use ms t1 in \<open>simp_all add: try_catch_def\<close>)
qed

lemma quiet_emit: "\<not> P ev \<Longrightarrow> quiet P (emit ev)"
  by (simp add: quiet_def emit_def)

lemma quiet_sys_call: "\<not> P ev \<Longrightarrow> quiet P (sys_call ev f)"
  by (simp add: quiet_def sys_call_def split: prod.splits option.splits)

lemma quiet_sys_readdir: "\<not> P (Readdir p) \<Longrightarrow> quiet P (sys_readdir os p)"
  by (simp add: quiet_def sys_readdir_def split: sum.splits)

lemma quiet_sys_execSync: "\<not> P (ExecSync c) \<Longrightarrow> quiet P (sys_execSync os c)"
  by (simp add: quiet_def sys_execSync_def split: sum.splits)

lemma isPrompt_simps [simp]:
  "\<not> isPrompt (Access p)" "\<not> isPrompt (Mkdir p)" "\<not> isPrompt (Rm p)"
  "\<not> isPrompt (WriteFile p c)" "\<not> isPrompt (Readdir p)" "\<not> isPrompt (ExecSync c)"
  "\<not> isPrompt (Exec c d)" "\<not> isPrompt (ConsoleError m e)" "\<not> isPrompt (ConsoleLog m)"
  "isPrompt (SelectPrompt m ls)" "isPrompt (TextPrompt m i)"
  by (simp_all add: isPrompt_def)

lemma quiet_response:
  "quiet P c \<Longrightarrow> (\<And>v. quiet P (f v)) \<Longrightarrow> quiet P (case r of Cancel \<Rightarrow> c | Answer v \<Rightarrow> f v)"
  by (cases r) simp_all

lemmas quiet_intros = quiet_bind quiet_try quiet_emit quiet_sys_call quiet_sys_readdir
  quiet_sys_execSync

lemma isExec_simps [simp]:
  "\<not> isExec (Access p)" "\<not> isExec (Mkdir p)" "\<not> isExec (Rm p)"
  "\<not> isExec (WriteFile p c)" "\<not> isExec (Readdir p)" "\<not> isExec (ExecSync c)"
  "isExec (Exec c d)" "\<not> isExec (ConsoleError m e)" "\<not> isExec (ConsoleLog m)"
  "\<not> isExec (SelectPrompt m ls)" "\<not> isExec (TextPrompt m i)"
  by (simp_all add: isExec_def)

lemma selective_isPrompt [simp]: "selective isPrompt"
  by (simp add: selective_def)

lemma selective_isExec [simp]: "selective isExec"
  by (simp add: selective_def)

lemma selectiveD:
  assumes "selective P"
  shows "\<not> P (Access p)" "\<not> P (Mkdir p)" "\<not> P (Rm p)" "\<not> P (WriteFile p c)"
    "\<not> P (Readdir p)" "\<not> P (ExecSync c)" "\<not> P (ConsoleError m e)" "\<not> P (ConsoleLog m)"
  using assms unfolding selective_def by (metis isPrompt_simps isExec_simps)+

lemma quietD: "quiet P m \<Longrightarrow> m s = (r, s') \<Longrightarrow> filter P (trace s') = filter P (trace s)"
  by (metis quiet_def snd_conv)

lemma quiet_prompts:
  "\<not> P (SelectPrompt m (map fst bs)) \<Longrightarrow> quiet P (prompt_select_bool os m bs)"
  "\<not> P (SelectPrompt m (map fst ss)) \<Longrightarrow> quiet P (prompt_select_str os m ss)"
  "\<not> P (TextPrompt m i) \<Longrightarrow> quiet P (prompt_text os m i)"
  by (simp_all add: quiet_def prompt_select_bool_def prompt_select_str_def prompt_text_def)

lemma quiet_isFolderExists: "selective P \<Longrightarrow> quiet P (isFolderExists os p)"
  by (auto simp: isFolderExists_def sys_access_def selectiveD intro!: quiet_intros)

lemma quiet_createFolder: "selective P \<Longrightarrow> quiet P (createFolder os p)"
  by (auto simp: createFolder_def sys_mkdir_def console_error_def selectiveD intro!: quiet_intros)

lemma quiet_removeFolder: "selective P \<Longrightarrow> quiet P (removeFolder os p)"
  by (auto simp: removeFolder_def sys_rm_def console_error_def selectiveD intro!: quiet_intros)

lemma quiet_listFiles: "selective P \<Longrightarrow> quiet P (listFiles os p)"
  by (auto simp: listFiles_def console_error_def selectiveD intro!: quiet_intros)

lemma quiet_saveToFile: "selective P \<Longrightarrow> quiet P (saveToFile os p c)"
  by (auto simp: saveToFile_def sys_writeFile_def console_error_def selectiveD intro!: quiet_intros)

lemma quiet_getGcpProject: "selective P \<Longrightarrow> quiet P (getGcpProject os)"
  by (auto simp: getGcpProject_def selectiveD split: option.splits intro!: quiet_intros)

lemma quiet_getGcpRegion: "selective P \<Longrightarrow> quiet P (getGcpRegion os)"
  by (auto simp: getGcpRegion_def selectiveD split: option.splits intro!: quiet_intros)

lemma quiet_generateFiles: "selective P \<Longrightarrow> quiet P (generateFiles os options)"
  unfolding generateFiles_def Let_def
  by (intro quiet_bind quiet_saveToFile) (simp_all add: quiet_saveToFile)

lemma quiet_logFiles: "selective P \<Longrightarrow> quiet P (logFiles names)"
  by (induction names) (auto simp: console_log_def selectiveD intro!: quiet_intros)

lemma quiet_reportSummary: "selective P \<Longrightarrow> quiet P (reportSummary os options dir)"
  unfolding reportSummary_def console_log_def
  by (intro quiet_bind quiet_listFiles quiet_logFiles quiet_emit) (simp_all add: selectiveD)

lemma quiet_installDependencies: "quiet isPrompt (installDependencies os options dir)"
  unfolding installDependencies_def sys_exec_def
  by (intro quiet_bind quiet_sys_call) (simp_all add: quiet_sys_call)

text \<open>In force mode the folder resolver and the collector add no prompt.\<close>

lemma quiet_generateAgentFolder: "quiet isPrompt (generateAgentFolder os dir True)"
  unfolding generateAgentFolder_def
  by (rule quiet_bind[OF quiet_isFolderExists])
     (auto simp: console_error_def
           intro!: quiet_bind quiet_createFolder quiet_removeFolder quiet_emit)

lemma quiet_resolveModel: "forceYes options \<Longrightarrow> quiet isPrompt (resolveModel os options)"
  by (simp add: resolveModel_def)

lemma quiet_resolveLanguage: "forceYes options \<Longrightarrow> quiet isPrompt (resolveLanguage os options)"
  by (simp add: resolveLanguage_def)

lemma quiet_resolveBackend: "forceYes options \<Longrightarrow> quiet isPrompt (resolveBackend os options)"
  unfolding resolveBackend_def
  by (auto intro!: quiet_bind quiet_getGcpProject quiet_getGcpRegion)

text \<open>The folder resolver and the collector never call the package manager.\<close>

lemma exec_generateAgentFolder: "quiet isExec (generateAgentFolder os dir force)"
  unfolding generateAgentFolder_def
  by (rule quiet_bind[OF quiet_isFolderExists])
     (auto simp: console_error_def
           intro!: quiet_bind quiet_createFolder quiet_removeFolder quiet_emit quiet_prompts
             quiet_response)

lemma exec_resolveModel: "quiet isExec (resolveModel os options)"
  unfolding resolveModel_def
  by (auto intro!: quiet_bind quiet_prompts quiet_response)

lemma exec_resolveLanguage: "quiet isExec (resolveLanguage os options)"
  unfolding resolveLanguage_def
  by (auto intro!: quiet_bind quiet_prompts quiet_response)

lemma exec_resolveBackend: "quiet isExec (resolveBackend os options)"
  unfolding resolveBackend_def
  by (auto intro!: quiet_bind quiet_prompts quiet_response quiet_getGcpProject quiet_getGcpRegion)

lemma exec_collectOptions: "quiet isExec (collectOptions os options)"
  unfolding collectOptions_def
  by (intro quiet_bind exec_resolveModel exec_resolveLanguage exec_resolveBackend)

section \<open>The configuration collector\<close>

lemma resolveModel_keeps:
  "resolveModel os options s = (Returns options', s') \<Longrightarrow>
   forceYes options' = forceYes options \<and> apiKey options' = apiKey options
   \<and> project options' = project options"
  by (auto simp: resolveModel_def io_bind_def io_return_def process_exit_def prompt_select_str_def
      split: if_splits response.splits)

lemma resolveLanguage_keeps:
  "resolveLanguage os options s = (Returns options', s') \<Longrightarrow>
   forceYes options' = forceYes options \<and> apiKey options' = apiKey options
   \<and> project options' = project options"
  by (auto simp: resolveLanguage_def io_bind_def io_return_def process_exit_def
      prompt_select_str_def split: if_splits response.splits)

lemma resolveModel_force:
  "forceYes options \<Longrightarrow>
   resolveModel os options s =
     (Returns (if model options = [] then options\<lparr>model := ''gemini-2.5-flash''\<rparr> else options), s)"
  by (simp add: resolveModel_def io_return_def)

lemma resolveLanguage_force:
  "forceYes options \<Longrightarrow>
   resolveLanguage os options s =
     (Returns (if language options \<noteq> ''js'' \<and> language options \<noteq> ''ts''
               then options\<lparr>language := ''ts''\<rparr> else options), s)"
  by (simp add: resolveLanguage_def io_return_def)

lemma resolveBackend_supplied:
  "apiKey options \<noteq> [] \<or> project options \<noteq> [] \<Longrightarrow>
   resolveBackend os options s = (Returns options, s)"
  by (auto simp: resolveBackend_def io_return_def)

lemma collectOptions_parts:
  assumes "collectOptions os options s = (Returns options', s')"
  obtains o1 s1 o2 s2 where
    "resolveModel os options s = (Returns o1, s1)"
    "resolveLanguage os o1 s1 = (Returns o2, s2)"
    "resolveBackend os o2 s2 = (Returns options', s')"
proof -
  from assms obtain o1 s1 where 1: "resolveModel os options s = (Returns o1, s1)"
    and r: "io_bind (resolveLanguage os o1) (\<lambda>options2. resolveBackend os options2) s1
             = (Returns options', s')"
    unfolding collectOptions_def by (rule io_bind_ReturnsE)
  from r obtain o2 s2 where "resolveLanguage os o1 s1 = (Returns o2, s2)"
    "resolveBackend os o2 s2 = (Returns options', s')"
    by (rule io_bind_ReturnsE)
  with 1 show ?thesis by (rule that)
qed

lemma quiet_collectOptions: "forceYes options \<Longrightarrow> quiet isPrompt (collectOptions os options)"
  unfolding collectOptions_def
  apply (rule quiet_bind_post[where Q = forceYes])
    apply (erule quiet_resolveModel)
   apply (simp add: resolveModel_keeps)
  apply (rule quiet_bind_post[where Q = forceYes])
    apply (erule quiet_resolveLanguage)
   apply (simp add: resolveLanguage_keeps)
  apply (erule quiet_resolveBackend)
  done

lemma resolveBackend_exclusive:
  assumes "resolveBackend os options s = (Returns options', s')"
    and "apiKey options = []" and "project options = []"
  shows "apiKey options' = [] \<or> project options' = []"
proof -
  obtain r s1 where c: "(if forceYes options then io_return (Answer ''googleai'')
           else prompt_select_str os ''Choose a backend''
                  [(''Google AI'', ''googleai''), (''Vertex AI'', ''vertex'')]) s = (Returns r, s1)"
    by (cases "forceYes options") (simp_all add: io_return_def prompt_select_str_def)
  show ?thesis
  proof (cases r)
    case Cancel
    with assms c show ?thesis
      by (simp add: resolveBackend_def io_bind_def process_exit_def)
  next
    case (Answer backend)
    show ?thesis
    proof (cases "backend = ''vertex''")
      case True
      obtain p s2 where p: "getGcpProject os s1 = (Returns p, s2)"
        using getGcpProject_returns by blast
      obtain g s3 where g: "getGcpRegion os s2 = (Returns g, s3)"
        using getGcpRegion_returns by blast
      from assms c Answer True p g show ?thesis
        by (auto simp: resolveBackend_def io_bind_def io_return_def process_exit_def
            prompt_text_def split: if_splits response.splits)
    next
      case False
      from assms c Answer False show ?thesis
        by (auto simp: resolveBackend_def io_bind_def io_return_def process_exit_def
            prompt_text_def split: if_splits response.splits)
    qed
  qed
qed

lemma collectOptions_exclusive:
  assumes "collectOptions os options s = (Returns options', s')"
    and "apiKey options = []" and "project options = []"
  shows "apiKey options' = [] \<or> project options' = []"
proof -
  from assms(1) obtain o1 s1 o2 s2 where
    1: "resolveModel os options s = (Returns o1, s1)" and
    2: "resolveLanguage os o1 s1 = (Returns o2, s2)" and
    3: "resolveBackend os o2 s2 = (Returns options', s')"
    by (rule collectOptions_parts)
  from 1 have k1: "apiKey o1 = apiKey options" "project o1 = project options"
    by (simp_all add: resolveModel_keeps)
  from 2 have k2: "apiKey o2 = apiKey o1" "project o2 = project o1"
    by (simp_all add: resolveLanguage_keeps)
  from 3 k1 k2 assms(2,3) show ?thesis
    by (intro resolveBackend_exclusive[of os o2 s2 options' s']) simp_all
qed

section \<open>The files and the installs, one after another\<close>

lemma writeInOrder_save:
  "io_bind (saveToFile os p c) (\<lambda>_. writeInOrder os rest) = writeInOrder os ((p, c) # rest)"
  by (rule ext) (simp add: io_bind_def saveToFile_eq split: prod.splits option.splits)

lemma writeInOrder_last:
  "saveToFile os p c = writeInOrder os [(p, c)]"
  by (rule ext) (simp add: saveToFile_eq split: prod.splits option.splits)

lemma writeInOrder_none: "io_return () = writeInOrder os []"
  by (rule ext) (simp add: io_return_def)

lemma save_seq_writeInOrder:
  "io_bind (saveToFile os p1 c1) (\<lambda>_. io_bind (saveToFile os p2 c2)
     (\<lambda>_. io_bind (saveToFile os p3 c3)
        (\<lambda>_. if b then saveToFile os p4 c4 else io_return ())))
   = writeInOrder os ([(p1, c1), (p2, c2), (p3, c3)] @ (if b then [(p4, c4)] else []))"
proof (cases b)
  case True
  then show ?thesis
    by (simp only: if_True writeInOrder_last[of os p4] writeInOrder_save append.simps)
next
  case False
  then show ?thesis
    by (simp only: if_False writeInOrder_none[of os] writeInOrder_save append.simps)
qed

lemma generateFiles_writeInOrder:
  "generateFiles os options s = writeInOrder os (candidateFiles os options) s"
  unfolding generateFiles_def Let_def candidateFiles_def
  by (simp only: save_seq_writeInOrder)


lemma execInOrder_step:
  "io_bind (sys_exec os command dir) (\<lambda>_. execInOrder os rest dir)
     = execInOrder os (command # rest) dir"
  by (rule ext) (simp add: io_bind_def sys_exec_def sys_call_def split: prod.splits option.splits)

lemma exec_seq_execInOrder:
  "io_bind (if b then sys_exec os c1 dir else io_return ()) (\<lambda>_. sys_exec os c2 dir)
   = execInOrder os ((if b then [c1] else []) @ [c2]) dir"
proof -
  have l: "sys_exec os c2 dir = execInOrder os [c2] dir"
    by (rule ext) (simp add: sys_exec_def sys_call_def split: prod.splits option.splits)
  show ?thesis
  proof (cases b)
    case True
    then show ?thesis
      unfolding l by (simp only: if_True execInOrder_step append.simps)
  next
    case False
    then show ?thesis
      unfolding l by (simp only: if_False io_bind_return_fun append.simps)
  qed
qed

lemma installDependencies_execInOrder:
  "installDependencies os options agentDir s = execInOrder os (installCommands options) agentDir s"
  unfolding installDependencies_def installCommands_def
  by (simp only: exec_seq_execInOrder)

lemma install_trace_exact:
  "trace (snd (installDependencies os options agentDir s)) =
     trace s
     @ (if language options = ''ts'' then [Exec tsInstall agentDir] else [])
     @ (if language options = ''ts'' \<and> fst (exec os tsInstall agentDir (files s)) \<noteq> None
        then [] else [Exec mainInstall agentDir])"
  unfolding installDependencies_execInOrder installCommands_def
  by (auto split: prod.splits option.splits)

lemma createAgent_reaches_install:
  assumes "generateAgentFolder os (agentDirOf os options0) (forceYes options0) s0 = (Returns (), s1)"
    and "collectOptions os options0 s1 = (Returns resolved, s2)"
    and "generateFiles os resolved s2 = (Returns (), s3)"
  shows "createAgent os options0 s0 =
     io_bind (installDependencies os resolved (agentDirOf os options0))
       (\<lambda>_. reportSummary os resolved (agentDirOf os options0)) s3"
  using assms by (simp add: createAgent_def Let_def io_bind_def)

lemma writeInOrder_same_disk:
  "fs_writeFile os = fs_writeFile os' \<Longrightarrow> writeInOrder os ws s = writeInOrder os' ws s"
  by (induction ws arbitrary: s) (auto split: prod.splits option.splits)

lemma createAgent_installs:
  assumes "createAgent os options0 s = (Returns (), s')"
  shows "\<exists>s1 options s2.
           generateAgentFolder os (agentDirOf os options0) (forceYes options0) s = (Returns (), s1)
           \<and> collectOptions os options0 s1 = (Returns options, s2)
           \<and> filter isExec (trace s') =
               filter isExec (trace s)
               @ (if language options = ''ts'' then [Exec tsInstall (agentDirOf os options0)] else [])
               @ [Exec mainInstall (agentDirOf os options0)]"
proof -
  let ?dir = "agentDirOf os options0"
  from assms obtain u s1 where
    1: "generateAgentFolder os ?dir (forceYes options0) s = (Returns u, s1)" and
    r1: "io_bind (collectOptions os options0) (\<lambda>options.
          io_bind (generateFiles os options) (\<lambda>_.
          io_bind (installDependencies os options ?dir) (\<lambda>_.
          reportSummary os options ?dir))) s1 = (Returns (), s')"
    unfolding createAgent_def Let_def by (rule io_bind_ReturnsE)
  from r1 obtain options s2 where
    2: "collectOptions os options0 s1 = (Returns options, s2)" and
    r2: "io_bind (generateFiles os options) (\<lambda>_.
          io_bind (installDependencies os options ?dir) (\<lambda>_.
          reportSummary os options ?dir)) s2 = (Returns (), s')"
    by (rule io_bind_ReturnsE)
  from r2 obtain u3 s3 where
    3: "generateFiles os options s2 = (Returns u3, s3)" and
    r3: "io_bind (installDependencies os options ?dir) (\<lambda>_.
          reportSummary os options ?dir) s3 = (Returns (), s')"
    by (rule io_bind_ReturnsE)
  from r3 obtain u4 s4 where
    4: "installDependencies os options ?dir s3 = (Returns u4, s4)" and
    5: "reportSummary os options ?dir s4 = (Returns (), s')"
    by (rule io_bind_ReturnsE)
  have t1: "filter isExec (trace s1) = filter isExec (trace s)"
    using exec_generateAgentFolder 1 by (rule quietD)
  have t2: "filter isExec (trace s2) = filter isExec (trace s1)"
    using exec_collectOptions 2 by (rule quietD)
  have t3: "filter isExec (trace s3) = filter isExec (trace s2)"
    using quiet_generateFiles[OF selective_isExec] 3 by (rule quietD)
  have t5: "filter isExec (trace s') = filter isExec (trace s4)"
    using quiet_reportSummary[OF selective_isExec] 5 by (rule quietD)
  from 4 have "fst (installDependencies os options ?dir s3) = Returns ()" by simp
  then have "trace (snd (installDependencies os options ?dir s3)) =
         trace s3 @ (if language options = ''ts'' then [Exec tsInstall ?dir] else [])
           @ [Exec mainInstall ?dir]"
    by (rule install_trace)
  with 4 have t4: "filter isExec (trace s4) = filter isExec (trace s3)
       @ (if language options = ''ts'' then [Exec tsInstall ?dir] else []) @ [Exec mainInstall ?dir]"
    by simp
  from 1 2 t1 t2 t3 t4 t5 show ?thesis by auto
qed

section \<open>The last line of the environment file\<close>

lemma join_lines_snoc: "xs \<noteq> [] \<Longrightarrow> join_lines (xs @ [h]) = join_lines xs @ NL # h"
  by (induction xs rule: join_lines.induct) auto

lemma lines_of_append_any:
  "\<exists>front. front \<noteq> [] \<and> lines_of (a @ NL # b) = front @ lines_of b"
proof (induction a)
  case Nil
  have "[[]] \<noteq> [] \<and> lines_of ([] @ NL # b) = [[]] @ lines_of b" by simp
  then show ?case by blast
next
  case (Cons c a)
  then obtain front where n: "front \<noteq> []" and f: "lines_of (a @ NL # b) = front @ lines_of b"
    by blast
  from n obtain l ls where front: "front = l # ls" by (cases front) auto
  show ?case
  proof (cases "c = NL")
    case True
    with f have "([] # front) \<noteq> [] \<and> lines_of ((c # a) @ NL # b) = ([] # front) @ lines_of b"
      by simp
    then show ?thesis by blast
  next
    case False
    with f front
    have "((c # l) # ls) \<noteq> [] \<and> lines_of ((c # a) @ NL # b) = ((c # l) # ls) @ lines_of b"
      by simp
    then show ?thesis by blast
  qed
qed

lemma last_line_in_content:
  assumes "xs \<noteq> []" and "NL \<notin> set h"
  shows "h \<in> set (lines_of (join_lines (xs @ [h])))"
proof -
  obtain front where "lines_of (join_lines xs @ NL # h) = front @ lines_of h"
    using lines_of_append_any by blast
  with assms show ?thesis
    by (simp add: join_lines_snoc lines_of_noNL)
qed

lemma hosted_in_content:
  assumes "project options \<noteq> []" and "region options \<noteq> []"
  shows "hasHostedLine (generateEnvFile options)"
proof -
  let ?pre = "(if apiKey options \<noteq> []
      then [''GOOGLE_API_KEY='' @ apiKey options, ''GOOGLE_GENAI_USE_VERTEXAI=0'']
      else [])
     @ [''GOOGLE_CLOUD_PROJECT='' @ project options, ''GOOGLE_CLOUD_LOCATION='' @ region options]"
  have e: "envLines options = ?pre @ [hostedLine]"
    using assms by (simp add: envLines_def hostedLine_def)
  have "NL \<notin> set hostedLine" by (simp add: hostedLine_def NL_def)
  moreover have "?pre \<noteq> []" by simp
  ultimately have "hostedLine \<in> set (lines_of (join_lines (?pre @ [hostedLine])))"
    by (rule last_line_in_content[rotated])
  then show ?thesis
    unfolding hasHostedLine_def generateEnvFile_def e .
qed

section \<open>The sample runs\<close>

lemma sample_paths:
  "agentDirOf demoOs resolvedA = ''/work/weather_bot''"
  "agentDirOf readOnlyOs resolvedA = ''/work/weather_bot''"
  "agentDirOf demoOs scenarioA = ''/work/weather_bot''"
  "agentDirOf npmFailsOs scenarioA = ''/work/weather_bot''"
  "path_join demoOs a b = a @ ''/'' @ b"
  "path_join readOnlyOs a b = a @ ''/'' @ b"
  "path_join npmFailsOs a b = a @ ''/'' @ b"
  by (simp_all add: agentDirOf_def demoOs_def readOnlyOs_def npmFailsOs_def resolvedA_def
      scenarioA_def)

lemma sample_parents:
  "parentOf ''/work/weather_bot'' = ''/work''"
  "parentOf ''/work/weather_bot/agent.ts'' = ''/work/weather_bot''"
  "parentOf ''/work/weather_bot/.env'' = ''/work/weather_bot''"
  "parentOf ''/work/weather_bot/package.json'' = ''/work/weather_bot''"
  "parentOf ''/work/weather_bot/tsconfig.json'' = ''/work/weather_bot''"
  by (simp_all add: parentOf_def)

lemma resolvedA_fields:
  "model resolvedA = ''gemini-2.5-flash''" "language resolvedA = ''ts''"
  "agentName resolvedA = ''weather_bot''" "generateEnvFile resolvedA = []"
  by (simp_all add: resolvedA_def scenarioA_def generateEnvFile_def envLines_def)

lemma candidateFiles_demo:
  "candidateFiles demoOs resolvedA =
     [(''/work/weather_bot/agent.ts'', AGENT_TEMPLATE ''gemini-2.5-flash''),
      (''/work/weather_bot/.env'', []),
      (''/work/weather_bot/package.json'', PACKAGE_JSON ''weather_bot'' ''ts''),
      (''/work/weather_bot/tsconfig.json'', TS_CONFIG)]"
  "candidateFiles readOnlyOs resolvedA = candidateFiles demoOs resolvedA"
  by (simp_all add: candidateFiles_def sample_paths resolvedA_fields)

lemma demo_write:
  "parentExists d p \<Longrightarrow> map_of d p \<noteq> Some Dir \<Longrightarrow>
   fs_writeFile demoOs p c d = (None, (p, File c) # filter (\<lambda>entry. fst entry \<noteq> p) d)"
  by (simp add: demoOs_def)

lemma collectOptions_scenarioA: "collectOptions os scenarioA s = (Returns resolvedA, s)"
  by (simp add: collectOptions_def resolveModel_def resolveLanguage_def resolveBackend_def
      scenarioA_def resolvedA_def io_bind_def io_return_def)

lemma folder_scenarioA:
  "generateAgentFolder demoOs ''/work/weather_bot'' True emptyDisk =
     (Returns (),
      \<lparr>files = [(''/work/weather_bot'', Dir)],
       trace = [Access ''/work/weather_bot'', Mkdir ''/work/weather_bot'']\<rparr>)"
  "generateAgentFolder npmFailsOs ''/work/weather_bot'' True emptyDisk =
     (Returns (),
      \<lparr>files = [(''/work/weather_bot'', Dir)],
       trace = [Access ''/work/weather_bot'', Mkdir ''/work/weather_bot'']\<rparr>)"
  by (simp_all add: generateAgentFolder_def isFolderExists_eq createFolder_eq io_bind_def
      demoOs_def npmFailsOs_def emptyDisk_def parentExists_def sample_parents)

lemma files_scenarioA:
  "generateFiles demoOs resolvedA
     \<lparr>files = [(''/work/weather_bot'', Dir)],
      trace = [Access ''/work/weather_bot'', Mkdir ''/work/weather_bot'']\<rparr>
   = (Returns (), writtenDisk)"
  by (simp add: generateFiles_writeInOrder candidateFiles_demo demo_write parentExists_def
      sample_parents writtenDisk_def)

lemma npmFails_files: "generateFiles npmFailsOs resolvedA s = generateFiles demoOs resolvedA s"
proof -
  have "fs_writeFile npmFailsOs = fs_writeFile demoOs"
    by (simp add: npmFailsOs_def)
  moreover have "candidateFiles npmFailsOs resolvedA = candidateFiles demoOs resolvedA"
    by (simp add: candidateFiles_def sample_paths agentDirOf_def npmFailsOs_def)
  ultimately show ?thesis
    using writeInOrder_same_disk[of npmFailsOs demoOs "candidateFiles demoOs resolvedA" s]
    by (simp add: generateFiles_writeInOrder)
qed

lemma scenarioA_completes: "fst (createAgent demoOs scenarioA emptyDisk) = Returns ()"
proof -
  have f: "forceYes scenarioA" by (simp add: scenarioA_def)
  let ?s1 = "\<lparr>files = [(''/work/weather_bot'', Dir)],
          trace = [Access ''/work/weather_bot'', Mkdir ''/work/weather_bot'']\<rparr>"
  have 1: "generateAgentFolder demoOs (agentDirOf demoOs scenarioA) (forceYes scenarioA)
             emptyDisk = (Returns (), ?s1)"
    by (simp add: sample_paths f folder_scenarioA)
  have 2: "collectOptions demoOs scenarioA ?s1 = (Returns resolvedA, ?s1)"
    by (rule collectOptions_scenarioA)
  have 3: "generateFiles demoOs resolvedA ?s1 = (Returns (), writtenDisk)"
    by (rule files_scenarioA)
  show ?thesis
    unfolding createAgent_reaches_install[OF 1 2 3]
    by (simp add: installDependencies_def sys_exec_def sys_call_def reportSummary_def
        listFiles_eq console_log_def emit_def io_bind_def io_return_def demoOs_def
        writtenDisk_def agentDirOf_def scenarioA_def resolvedA_def)
qed

section \<open>The claims\<close>

subsection \<open>C1: backend modes in the environment file\<close>

text \<open>
  Claim C1 says that no option record reaching file generation yields an environment
  file with both a direct-key line and the hosted-mode-enabled line, in particular when
  key, project and region are all non-empty.  It fails for the record \<open>bothModes\<close>: the
  backend question is skipped because a key is supplied, the collector hands the record
  on unchanged, and the file has the five lines below, among them both lines.
\<close>

theorem both_modes_counterexample:
  "collectOptions demoOs bothModes emptyDisk = (Returns bothModes, emptyDisk)
   \<and> generateEnvFile bothModes =
       join_lines [''GOOGLE_API_KEY=k'', ''GOOGLE_GENAI_USE_VERTEXAI=0'',
                   ''GOOGLE_CLOUD_PROJECT=p'', ''GOOGLE_CLOUD_LOCATION=r'',
                   ''GOOGLE_GENAI_USE_VERTEXAI=1'']
   \<and> hasKeyLine (generateEnvFile bothModes)
   \<and> hasHostedLine (generateEnvFile bothModes)"
proof -
  have nn: "noNL (apiKey bothModes)" "noNL (project bothModes)" "noNL (region bothModes)"
    by (simp_all add: bothModes_def noNL_def NL_def)
  have "collectOptions demoOs bothModes emptyDisk = (Returns bothModes, emptyDisk)"
    by (simp add: collectOptions_def resolveModel_def resolveLanguage_def resolveBackend_def
        bothModes_def io_bind_def io_return_def)
  moreover have "generateEnvFile bothModes =
       join_lines [''GOOGLE_API_KEY=k'', ''GOOGLE_GENAI_USE_VERTEXAI=0'',
                   ''GOOGLE_CLOUD_PROJECT=p'', ''GOOGLE_CLOUD_LOCATION=r'',
                   ''GOOGLE_GENAI_USE_VERTEXAI=1'']"
    by (simp add: generateEnvFile_def envLines_def bothModes_def)
  moreover have "hasKeyLine (generateEnvFile bothModes)"
    using hasKeyLine_generateEnvFile[OF nn] by (simp add: bothModes_def)
  moreover have "hasHostedLine (generateEnvFile bothModes)"
    using hasHostedLine_generateEnvFile[OF nn] by (simp add: bothModes_def)
  ultimately show ?thesis by blast
qed

text \<open>
  Claim C1, amended.  The lines that \<open>generateEnvFile\<close> joins contain both a direct-key
  line and the hosted-mode-enabled line exactly when key, project and region are all
  non-empty; the same holds for the lines of the file when the three values contain no
  newline.  A record that enters the collector with neither key nor project leaves it
  with an empty key or an empty project, so the backend question itself never
  produces both.
\<close>

theorem both_modes_iff_all_supplied:
  "(list_ex isKeyLine (envLines options) \<and> hostedLine \<in> set (envLines options)
      \<longleftrightarrow> apiKey options \<noteq> [] \<and> project options \<noteq> [] \<and> region options \<noteq> [])
   \<and> (noNL (apiKey options) \<and> noNL (project options) \<and> noNL (region options) \<longrightarrow>
        (hasKeyLine (generateEnvFile options) \<and> hasHostedLine (generateEnvFile options)
           \<longleftrightarrow> apiKey options \<noteq> [] \<and> project options \<noteq> [] \<and> region options \<noteq> []))
   \<and> (apiKey options = [] \<and> project options = []
        \<and> collectOptions os options s = (Returns options', s') \<longrightarrow>
        apiKey options' = [] \<or> project options' = [])"
  using key_in_envLines[of options] hosted_in_envLines[of options]
    hasKeyLine_generateEnvFile[of options] hasHostedLine_generateEnvFile[of options]
    collectOptions_exclusive[of os options s options' s']
  by blast

text \<open>
  C1, sample inputs: scenario D (project and region only) has not both lines, and
  scenario A leaves the collector on the demo system with neither key nor project.
\<close>

theorem both_modes_iff_all_supplied_witness:
  "noNL (apiKey (scenarioD ''bot'' [] [])) \<and> noNL (project (scenarioD ''bot'' [] []))
   \<and> noNL (region (scenarioD ''bot'' [] []))
   \<and> \<not> (hasKeyLine (generateEnvFile (scenarioD ''bot'' [] []))
          \<and> hasHostedLine (generateEnvFile (scenarioD ''bot'' [] [])))
   \<and> apiKey scenarioA = [] \<and> project scenarioA = []
   \<and> collectOptions demoOs scenarioA emptyDisk = (Returns resolvedA, emptyDisk)
   \<and> (apiKey resolvedA = [] \<or> project resolvedA = [])"
proof -
  let ?d = "scenarioD ''bot'' [] []"
  have n: "noNL (apiKey ?d)" "noNL (project ?d)" "noNL (region ?d)"
    by (simp_all add: scenarioD_def noNL_def NL_def)
  have k: "apiKey ?d = []" by (simp add: scenarioD_def)
  have a: "apiKey scenarioA = []" "project scenarioA = []"
    by (simp_all add: scenarioA_def)
  have c: "collectOptions demoOs scenarioA emptyDisk = (Returns resolvedA, emptyDisk)"
    by (simp add: collectOptions_def resolveModel_def resolveLanguage_def resolveBackend_def
        scenarioA_def resolvedA_def io_bind_def io_return_def)
  from both_modes_iff_all_supplied[of ?d demoOs emptyDisk resolvedA emptyDisk] n k
  have 1: "\<not> (hasKeyLine (generateEnvFile ?d) \<and> hasHostedLine (generateEnvFile ?d))"
    by blast
  from both_modes_iff_all_supplied[of scenarioA demoOs emptyDisk resolvedA emptyDisk] a c
  have 2: "apiKey resolvedA = [] \<or> project resolvedA = []"
    by blast
  from n a c 1 2 show ?thesis by blast
qed

subsection \<open>C2: failures of the file system calls\<close>

text \<open>
  Claim C2 says that a failing folder creation or removal is logged with the path and
  propagated to the caller.  It fails: on the read-only disk \<open>mkdir\<close> fails with
  \<open>EACCES\<close>, and \<open>createFolder\<close> logs the failure and returns normally.
\<close>

theorem createFolder_swallows_counterexample:
  "fs_mkdir readOnlyOs ''/work/weather_bot'' (files emptyDisk) = (Some (JsError ''EACCES''), [])
   \<and> createFolder readOnlyOs ''/work/weather_bot'' emptyDisk =
       (Returns (),
        \<lparr>files = [],
         trace = [Mkdir ''/work/weather_bot'',
                  ConsoleError ''Failed to create folder /work/weather_bot''
                    (Some (JsError ''EACCES''))]\<rparr>)
   \<and> fst (createFolder readOnlyOs ''/work/weather_bot'' emptyDisk) \<noteq> Throws (JsError ''EACCES'')"
  by (simp add: createFolder_eq readOnlyOs_def demoOs_def emptyDisk_def)

text \<open>
  Claim C2, amended.  When folder creation or removal fails, \<open>createFolder\<close> and
  \<open>removeFolder\<close> log the error with the offending path and return normally: the error
  does not reach the caller.  A failing file write is logged with the path and
  rethrown by \<open>saveToFile\<close>.  A failing existence check gives \<open>false\<close>, and a failing
  listing is logged and gives the empty list.
\<close>

theorem io_failures_logged:
  "(fs_mkdir os p (files s) = (Some e, fs') \<longrightarrow>
      createFolder os p s =
        (Returns (),
         \<lparr>files = fs',
          trace = trace s @ [Mkdir p, ConsoleError (''Failed to create folder '' @ p) (Some e)]\<rparr>))
   \<and> (fs_rm os p (files s) = (Some e, fs') \<longrightarrow>
      removeFolder os p s =
        (Returns (),
         \<lparr>files = fs',
          trace = trace s @ [Rm p, ConsoleError (''Failed to remove folder '' @ p) (Some e)]\<rparr>))
   \<and> (fs_writeFile os p c (files s) = (Some e, fs') \<longrightarrow>
      saveToFile os p c s =
        (Throws e,
         \<lparr>files = fs',
          trace = trace s
            @ [WriteFile p c, ConsoleError (''Failed to write file '' @ p @ '':'') (Some e)]\<rparr>))
   \<and> (fs_access os p (files s) = Some e \<longrightarrow>
      isFolderExists os p s = (Returns False, \<lparr>files = files s, trace = trace s @ [Access p]\<rparr>))
   \<and> (fs_readdir os p (files s) = Inl e \<longrightarrow>
      listFiles os p s =
        (Returns [],
         \<lparr>files = files s,
          trace = trace s
            @ [Readdir p, ConsoleError (''Failed to list files in folder '' @ p) (Some e)]\<rparr>))"
  by (simp add: createFolder_eq removeFolder_eq saveToFile_eq isFolderExists_eq listFiles_eq)

text \<open>
  C2, sample inputs: the read-only disk, where creating the folder and writing the
  environment file fail and the folder does not exist.
\<close>

theorem io_failures_logged_witness:
  "fs_mkdir readOnlyOs ''/work/weather_bot'' (files emptyDisk) = (Some (JsError ''EACCES''), [])
   \<and> createFolder readOnlyOs ''/work/weather_bot'' emptyDisk =
       (Returns (),
        \<lparr>files = [],
         trace = [Mkdir ''/work/weather_bot'',
                  ConsoleError (''Failed to create folder '' @ ''/work/weather_bot'')
                    (Some (JsError ''EACCES''))]\<rparr>)
   \<and> fs_writeFile readOnlyOs ''/work/weather_bot/.env'' [] (files emptyDisk)
       = (Some (JsError ''EACCES''), [])
   \<and> saveToFile readOnlyOs ''/work/weather_bot/.env'' [] emptyDisk =
       (Throws (JsError ''EACCES''),
        \<lparr>files = [],
         trace = [WriteFile ''/work/weather_bot/.env'' [],
                  ConsoleError (''Failed to write file '' @ ''/work/weather_bot/.env'' @ '':'')
                    (Some (JsError ''EACCES''))]\<rparr>)
   \<and> fs_access readOnlyOs ''/work/weather_bot'' (files emptyDisk) = Some (JsError ''ENOENT'')
   \<and> isFolderExists readOnlyOs ''/work/weather_bot'' emptyDisk =
       (Returns False, \<lparr>files = [], trace = [Access ''/work/weather_bot'']\<rparr>)"
proof -
  have m: "fs_mkdir readOnlyOs ''/work/weather_bot'' (files emptyDisk)
             = (Some (JsError ''EACCES''), [])"
    by (simp add: readOnlyOs_def emptyDisk_def)
  have w: "fs_writeFile readOnlyOs ''/work/weather_bot/.env'' [] (files emptyDisk)
             = (Some (JsError ''EACCES''), [])"
    by (simp add: readOnlyOs_def emptyDisk_def)
  have a: "fs_access readOnlyOs ''/work/weather_bot'' (files emptyDisk) = Some (JsError ''ENOENT'')"
    by (simp add: readOnlyOs_def demoOs_def emptyDisk_def)
  have t: "trace emptyDisk = []" "files emptyDisk = []"
    by (simp_all add: emptyDisk_def)
  from io_failures_logged[of readOnlyOs "''/work/weather_bot''" emptyDisk "JsError ''EACCES''" "[]"] m
  have 1: "createFolder readOnlyOs ''/work/weather_bot'' emptyDisk =
       (Returns (),
        \<lparr>files = [],
         trace = [Mkdir ''/work/weather_bot'',
                  ConsoleError (''Failed to create folder '' @ ''/work/weather_bot'')
                    (Some (JsError ''EACCES''))]\<rparr>)"
    by (simp add: t)
  from io_failures_logged[of readOnlyOs "''/work/weather_bot/.env''" emptyDisk
      "JsError ''EACCES''" "[]" "[]"] w
  have 2: "saveToFile readOnlyOs ''/work/weather_bot/.env'' [] emptyDisk =
       (Throws (JsError ''EACCES''),
        \<lparr>files = [],
         trace = [WriteFile ''/work/weather_bot/.env'' [],
                  ConsoleError (''Failed to write file '' @ ''/work/weather_bot/.env'' @ '':'')
                    (Some (JsError ''EACCES''))]\<rparr>)"
    by (simp add: t)
  from io_failures_logged[of readOnlyOs "''/work/weather_bot''" emptyDisk "JsError ''ENOENT''"] a
  have 3: "isFolderExists readOnlyOs ''/work/weather_bot'' emptyDisk =
       (Returns False, \<lparr>files = [], trace = [Access ''/work/weather_bot'']\<rparr>)"
    by (simp add: t)
  from m w a 1 2 3 show ?thesis by blast
qed

subsection \<open>C3: scenario D\<close>

text \<open>
  Claim C3.  For the record with project \<open>acme\<close>, region \<open>us-central1\<close>, no key and
  force mode, whatever its name, model and language, the environment file is exactly
  the three lines \<open>GOOGLE_CLOUD_PROJECT=acme\<close>, \<open>GOOGLE_CLOUD_LOCATION=us-central1\<close> and
  \<open>GOOGLE_GENAI_USE_VERTEXAI=1\<close>, in this order, and has no key line.  The collector
  returns, without any effect, a record with the same environment file.
\<close>

theorem scenario_D_env_file:
  "generateEnvFile (scenarioD name m lang) =
     ''GOOGLE_CLOUD_PROJECT=acme'' @ NL # ''GOOGLE_CLOUD_LOCATION=us-central1''
       @ NL # ''GOOGLE_GENAI_USE_VERTEXAI=1''
   \<and> lines_of (generateEnvFile (scenarioD name m lang)) =
       [''GOOGLE_CLOUD_PROJECT=acme'', ''GOOGLE_CLOUD_LOCATION=us-central1'',
        ''GOOGLE_GENAI_USE_VERTEXAI=1'']
   \<and> \<not> hasKeyLine (generateEnvFile (scenarioD name m lang))
   \<and> (\<exists>options. collectOptions os (scenarioD name m lang) s = (Returns options, s)
         \<and> generateEnvFile options = generateEnvFile (scenarioD name m lang))"
proof -
  let ?o = "scenarioD name m lang"
  have lines: "envLines ?o = [''GOOGLE_CLOUD_PROJECT=acme'', ''GOOGLE_CLOUD_LOCATION=us-central1'',
        ''GOOGLE_GENAI_USE_VERTEXAI=1'']"
    by (simp add: envLines_def scenarioD_def)
  have nn: "noNL (apiKey ?o)" "noNL (project ?o)" "noNL (region ?o)"
    by (simp_all add: scenarioD_def noNL_def NL_def)
  have a: "generateEnvFile ?o = ''GOOGLE_CLOUD_PROJECT=acme'' @ NL # ''GOOGLE_CLOUD_LOCATION=us-central1''
       @ NL # ''GOOGLE_GENAI_USE_VERTEXAI=1''"
    by (simp add: generateEnvFile_def lines)
  have b: "lines_of (generateEnvFile ?o) = [''GOOGLE_CLOUD_PROJECT=acme'', ''GOOGLE_CLOUD_LOCATION=us-central1'',
        ''GOOGLE_GENAI_USE_VERTEXAI=1'']"
    using lines_of_generateEnvFile[OF nn] lines by simp
  have c: "\<not> hasKeyLine (generateEnvFile ?o)"
    using hasKeyLine_generateEnvFile[OF nn] by (simp add: scenarioD_def)
  let ?o1 = "if model ?o = [] then ?o\<lparr>model := ''gemini-2.5-flash''\<rparr> else ?o"
  let ?o2 = "if language ?o1 \<noteq> ''js'' \<and> language ?o1 \<noteq> ''ts'' then ?o1\<lparr>language := ''ts''\<rparr> else ?o1"
  have f1: "forceYes ?o" "forceYes ?o1" by (simp_all add: scenarioD_def)
  have p2: "project ?o2 \<noteq> []" by (simp add: scenarioD_def)
  have "collectOptions os ?o s = (Returns ?o2, s)"
    unfolding collectOptions_def
    using resolveModel_force[OF f1(1), of os s] resolveLanguage_force[OF f1(2), of os s]
      resolveBackend_supplied[of ?o2 os s] p2
    by (simp add: io_bind_def)
  moreover have "envLines ?o2 = envLines ?o"
    by (simp add: envLines_def scenarioD_def)
  ultimately have d: "\<exists>options. collectOptions os ?o s = (Returns options, s)
         \<and> generateEnvFile options = generateEnvFile ?o"
    by (metis generateEnvFile_def)
  from a b c d show ?thesis by blast
qed

text \<open>
  C3, sample input: scenario D for the agent \<open>acme_bot\<close>.
\<close>

theorem scenario_D_env_file_witness:
  "lines_of (generateEnvFile (scenarioD ''acme_bot'' [] [])) =
     [''GOOGLE_CLOUD_PROJECT=acme'', ''GOOGLE_CLOUD_LOCATION=us-central1'',
      ''GOOGLE_GENAI_USE_VERTEXAI=1'']
   \<and> \<not> hasKeyLine (generateEnvFile (scenarioD ''acme_bot'' [] []))"
  using scenario_D_env_file[of "''acme_bot''" "[]" "[]" demoOs emptyDisk] by blast

subsection \<open>C4: force mode never prompts\<close>

text \<open>
  Claim C4.  When \<open>forceYes\<close> is true, a run of \<open>createAgent\<close> adds no prompt event
  to the trace, whatever the operating system and the user do and however the run
  ends: the prompts recorded after the run are those recorded before it.
\<close>

theorem force_mode_never_prompts:
  assumes "forceYes options"
  shows "filter isPrompt (trace (snd (createAgent os options s))) = filter isPrompt (trace s)"
proof -
  have "quiet isPrompt (createAgent os options)"
    unfolding createAgent_def Let_def
    apply (rule quiet_bind)
     apply (simp add: assms quiet_generateAgentFolder)
    apply (rule quiet_bind)
     apply (rule quiet_collectOptions[OF assms])
    apply (intro quiet_bind quiet_generateFiles quiet_installDependencies quiet_reportSummary
        selective_isPrompt)
    done
  then show ?thesis by (simp add: quiet_def)
qed

text \<open>
  C4, sample input: scenario A on the demo system, started with an empty trace.
\<close>

theorem force_mode_never_prompts_witness:
  "forceYes scenarioA
   \<and> filter isPrompt (trace (snd (createAgent demoOs scenarioA emptyDisk))) = []"
proof -
  have h: "forceYes scenarioA" by (simp add: scenarioA_def)
  from force_mode_never_prompts[OF h, of demoOs emptyDisk] h show ?thesis
    by (simp add: emptyDisk_def)
qed

subsection \<open>C5: the record built by the command line entry\<close>

text \<open>
  Claim C5 says that the routing layer delivers a record that contains the force
  flag.  The object built by the action of the \<open>create\<close> command has no \<open>forceYes\<close>
  property, whatever the agent name and the parsed options are, so \<open>createAgent\<close>
  reads it as \<open>undefined\<close> and never runs in force mode.
\<close>

theorem createAction_omits_forceYes:
  "map_of (createAction name opts) ''forceYes'' = None
   \<and> getProperty (createAction name opts) ''forceYes'' = JUndefined
   \<and> \<not> forceYes (asOptions (createAction name opts))"
  by (simp add: createAction_def getProperty_def asOptions_def jsTruthy_def)

subsection \<open>C6: the files written\<close>



subsection \<open>C7: the installation of the dependencies\<close>

text \<open>
  Claim C7 says that in every run that reaches the installation of the dependencies
  the install of the run-time dependencies is invoked exactly once.  It fails where
  the package manager fails: the run of scenario A creates the folder, resolves the
  language to \<open>ts\<close>, writes the four files and calls the install of the type-checker;
  that call fails, \<open>createAgent\<close> rejects with its error, and the install of the
  run-time dependencies is never invoked.
\<close>

theorem install_failure_counterexample:
  "language resolvedA = ''ts''
   \<and> generateAgentFolder npmFailsOs ''/work/weather_bot'' True emptyDisk =
       (Returns (),
        \<lparr>files = [(''/work/weather_bot'', Dir)],
         trace = [Access ''/work/weather_bot'', Mkdir ''/work/weather_bot'']\<rparr>)
   \<and> collectOptions npmFailsOs scenarioA
         \<lparr>files = [(''/work/weather_bot'', Dir)],
          trace = [Access ''/work/weather_bot'', Mkdir ''/work/weather_bot'']\<rparr>
       = (Returns resolvedA,
          \<lparr>files = [(''/work/weather_bot'', Dir)],
           trace = [Access ''/work/weather_bot'', Mkdir ''/work/weather_bot'']\<rparr>)
   \<and> generateFiles npmFailsOs resolvedA
         \<lparr>files = [(''/work/weather_bot'', Dir)],
          trace = [Access ''/work/weather_bot'', Mkdir ''/work/weather_bot'']\<rparr>
       = (Returns (), writtenDisk)
   \<and> createAgent npmFailsOs scenarioA emptyDisk =
       (Throws (JsError ''npm: exit code 1''),
        \<lparr>files = files writtenDisk,
         trace = trace writtenDisk
           @ [Exec ''npm install typescript --save-dev'' ''/work/weather_bot'']\<rparr>)
   \<and> Exec mainInstall ''/work/weather_bot''
       \<notin> set (trace (snd (createAgent npmFailsOs scenarioA emptyDisk)))"
proof -
  have f: "forceYes scenarioA" by (simp add: scenarioA_def)
  have l: "language resolvedA = ''ts''" by (rule resolvedA_fields)
  let ?s1 = "\<lparr>files = [(''/work/weather_bot'', Dir)],
          trace = [Access ''/work/weather_bot'', Mkdir ''/work/weather_bot'']\<rparr>"
  have 1: "generateAgentFolder npmFailsOs (agentDirOf npmFailsOs scenarioA) (forceYes scenarioA)
             emptyDisk = (Returns (), ?s1)"
    by (simp add: sample_paths f folder_scenarioA)
  have 2: "collectOptions npmFailsOs scenarioA ?s1 = (Returns resolvedA, ?s1)"
    by (rule collectOptions_scenarioA)
  have 3: "generateFiles npmFailsOs resolvedA ?s1 = (Returns (), writtenDisk)"
    by (simp add: npmFails_files files_scenarioA)
  have e: "exec npmFailsOs tsInstall ''/work/weather_bot'' (files writtenDisk)
             = (Some (JsError ''npm: exit code 1''), files writtenDisk)"
    by (simp add: npmFailsOs_def)
  have 4: "installDependencies npmFailsOs resolvedA ''/work/weather_bot'' writtenDisk =
       (Throws (JsError ''npm: exit code 1''),
        \<lparr>files = files writtenDisk,
         trace = trace writtenDisk @ [Exec tsInstall ''/work/weather_bot'']\<rparr>)"
    by (simp add: installDependencies_def l sys_exec_def sys_call_def e io_bind_def)
  have run: "createAgent npmFailsOs scenarioA emptyDisk =
       (Throws (JsError ''npm: exit code 1''),
        \<lparr>files = files writtenDisk,
         trace = trace writtenDisk @ [Exec tsInstall ''/work/weather_bot'']\<rparr>)"
    unfolding createAgent_reaches_install[OF 1 2 3]
    by (simp add: sample_paths 4 io_bind_def)
  have n: "Exec mainInstall ''/work/weather_bot''
       \<notin> set (trace (snd (createAgent npmFailsOs scenarioA emptyDisk)))"
    unfolding run by (simp add: writtenDisk_def tsInstall_def mainInstall_def)
  from l folder_scenarioA(2) 2 3 run n show ?thesis
    by (simp add: tsInstall_def)
qed

text \<open>
  Claim C7, amended.  The install block hands its commands to the package manager in
  order, each once, in the folder \<open>agentDir\<close>, and stops at the first that fails: the
  install of the type-checker as a development dependency first if the language is
  \<open>ts\<close>, then the install of the run-time dependencies.  So the run-time install is
  invoked exactly once unless the language is \<open>ts\<close> and the type-checker install
  fails; in that case the block rejects with that error after the one call.  A run of
  \<open>createAgent\<close> that reaches the installation continues with exactly this block, in
  the target folder and for the record the collector returned; and in a run that
  completes, the calls of the package manager are the type-checker install if that
  record's language is \<open>ts\<close>, then the run-time install, both in the target folder.
\<close>

theorem install_calls:
  "installDependencies os options agentDir s = execInOrder os (installCommands options) agentDir s
   \<and> trace (snd (installDependencies os options agentDir s)) =
       trace s
       @ (if language options = ''ts'' then [Exec tsInstall agentDir] else [])
       @ (if language options = ''ts'' \<and> fst (exec os tsInstall agentDir (files s)) \<noteq> None
          then [] else [Exec mainInstall agentDir])
   \<and> (language options = ''ts'' \<and> exec os tsInstall agentDir (files s) = (Some e, fs') \<longrightarrow>
        installDependencies os options agentDir s =
          (Throws e, \<lparr>files = fs', trace = trace s @ [Exec tsInstall agentDir]\<rparr>))
   \<and> (generateAgentFolder os (agentDirOf os options0) (forceYes options0) s0 = (Returns (), s1)
        \<and> collectOptions os options0 s1 = (Returns resolved, s2)
        \<and> generateFiles os resolved s2 = (Returns (), s3) \<longrightarrow>
        createAgent os options0 s0 =
          io_bind (installDependencies os resolved (agentDirOf os options0))
            (\<lambda>_. reportSummary os resolved (agentDirOf os options0)) s3)
   \<and> (createAgent os options0 s0 = (Returns (), s') \<longrightarrow>
        (\<exists>t1 chosen t2.
            generateAgentFolder os (agentDirOf os options0) (forceYes options0) s0
              = (Returns (), t1)
            \<and> collectOptions os options0 t1 = (Returns chosen, t2)
            \<and> filter isExec (trace s') =
                filter isExec (trace s0)
                @ (if language chosen = ''ts''
                   then [Exec tsInstall (agentDirOf os options0)] else [])
                @ [Exec mainInstall (agentDirOf os options0)]))"
proof (intro conjI impI)
  show "installDependencies os options agentDir s
          = execInOrder os (installCommands options) agentDir s"
    by (rule installDependencies_execInOrder)
  show "trace (snd (installDependencies os options agentDir s)) =
       trace s
       @ (if language options = ''ts'' then [Exec tsInstall agentDir] else [])
       @ (if language options = ''ts'' \<and> fst (exec os tsInstall agentDir (files s)) \<noteq> None
          then [] else [Exec mainInstall agentDir])"
    by (rule install_trace_exact)
next
  assume "language options = ''ts'' \<and> exec os tsInstall agentDir (files s) = (Some e, fs')"
  then show "installDependencies os options agentDir s =
          (Throws e, \<lparr>files = fs', trace = trace s @ [Exec tsInstall agentDir]\<rparr>)"
    by (simp add: installDependencies_execInOrder installCommands_def)
next
  assume "generateAgentFolder os (agentDirOf os options0) (forceYes options0) s0 = (Returns (), s1)
        \<and> collectOptions os options0 s1 = (Returns resolved, s2)
        \<and> generateFiles os resolved s2 = (Returns (), s3)"
  then show "createAgent os options0 s0 =
          io_bind (installDependencies os resolved (agentDirOf os options0))
            (\<lambda>_. reportSummary os resolved (agentDirOf os options0)) s3"
    using createAgent_reaches_install by blast
next
  assume "createAgent os options0 s0 = (Returns (), s')"
  then show "\<exists>t1 chosen t2.
            generateAgentFolder os (agentDirOf os options0) (forceYes options0) s0
              = (Returns (), t1)
            \<and> collectOptions os options0 t1 = (Returns chosen, t2)
            \<and> filter isExec (trace s') =
                filter isExec (trace s0)
                @ (if language chosen = ''ts''
                   then [Exec tsInstall (agentDirOf os options0)] else [])
                @ [Exec mainInstall (agentDirOf os options0)]"
    by (rule createAgent_installs)
qed

text \<open>
  C7, sample inputs: the typed resolved scenario A where \<open>npm\<close> succeeds and where it
  fails, on a disk that holds the target folder, and the whole run of scenario A in
  the empty working directory.
\<close>

theorem install_calls_witness:
  "language resolvedA = ''ts''
   \<and> installDependencies demoOs resolvedA ''/work/weather_bot'' folderDisk =
       (Returns (),
        \<lparr>files = [(''/work/weather_bot'', Dir)],
         trace = [Exec ''npm install typescript --save-dev'' ''/work/weather_bot'',
                  Exec ''npm install @google/adk @google/adk-devtools zod@3.25.76 dotenv''
                    ''/work/weather_bot'']\<rparr>)
   \<and> exec npmFailsOs tsInstall ''/work/weather_bot'' (files folderDisk)
       = (Some (JsError ''npm: exit code 1''), [(''/work/weather_bot'', Dir)])
   \<and> installDependencies npmFailsOs resolvedA ''/work/weather_bot'' folderDisk =
       (Throws (JsError ''npm: exit code 1''),
        \<lparr>files = [(''/work/weather_bot'', Dir)],
         trace = [Exec ''npm install typescript --save-dev'' ''/work/weather_bot'']\<rparr>)
   \<and> fst (createAgent demoOs scenarioA emptyDisk) = Returns ()
   \<and> filter isExec (trace (snd (createAgent demoOs scenarioA emptyDisk))) =
       [Exec ''npm install typescript --save-dev'' ''/work/weather_bot'',
        Exec ''npm install @google/adk @google/adk-devtools zod@3.25.76 dotenv''
          ''/work/weather_bot'']"
proof -
  have l: "language resolvedA = ''ts''" by (rule resolvedA_fields)
  have c: "installCommands resolvedA = [tsInstall, mainInstall]"
    by (simp add: installCommands_def l)
  note th = install_calls[of demoOs resolvedA "''/work/weather_bot''" folderDisk]
  have a: "installDependencies demoOs resolvedA ''/work/weather_bot'' folderDisk =
       (Returns (),
        \<lparr>files = [(''/work/weather_bot'', Dir)],
         trace = [Exec ''npm install typescript --save-dev'' ''/work/weather_bot'',
                  Exec ''npm install @google/adk @google/adk-devtools zod@3.25.76 dotenv''
                    ''/work/weather_bot'']\<rparr>)"
    unfolding th[THEN conjunct1] c
    by (simp add: demoOs_def folderDisk_def tsInstall_def mainInstall_def)
  have e: "exec npmFailsOs tsInstall ''/work/weather_bot'' (files folderDisk)
       = (Some (JsError ''npm: exit code 1''), [(''/work/weather_bot'', Dir)])"
    by (simp add: npmFailsOs_def folderDisk_def)
  from install_calls[of npmFailsOs resolvedA "''/work/weather_bot''" folderDisk
      "JsError ''npm: exit code 1''" "[(''/work/weather_bot'', Dir)]",
      THEN conjunct2, THEN conjunct2, THEN conjunct1] l e
  have b: "installDependencies npmFailsOs resolvedA ''/work/weather_bot'' folderDisk =
       (Throws (JsError ''npm: exit code 1''),
        \<lparr>files = [(''/work/weather_bot'', Dir)],
         trace = [Exec ''npm install typescript --save-dev'' ''/work/weather_bot'']\<rparr>)"
    by (simp add: folderDisk_def tsInstall_def)
  let ?end = "snd (createAgent demoOs scenarioA emptyDisk)"
  have run: "createAgent demoOs scenarioA emptyDisk = (Returns (), ?end)"
    using scenarioA_completes by (metis prod.collapse)
  from install_calls[of demoOs resolvedA "''/work/weather_bot''" folderDisk _ _ scenarioA
      emptyDisk _ _ _ _ ?end, THEN conjunct2, THEN conjunct2, THEN conjunct2, THEN conjunct2] run
  obtain t1 chosen t2 where
    co: "collectOptions demoOs scenarioA t1 = (Returns chosen, t2)"
    and ex: "filter isExec (trace ?end) =
         filter isExec (trace emptyDisk)
         @ (if language chosen = ''ts''
            then [Exec tsInstall (agentDirOf demoOs scenarioA)] else [])
         @ [Exec mainInstall (agentDirOf demoOs scenarioA)]"
    by blast
  from co have "chosen = resolvedA"
    by (simp add: collectOptions_scenarioA)
  with ex have d: "filter isExec (trace ?end) =
       [Exec ''npm install typescript --save-dev'' ''/work/weather_bot'',
        Exec ''npm install @google/adk @google/adk-devtools zod@3.25.76 dotenv''
          ''/work/weather_bot'']"
    by (simp add: l sample_paths emptyDisk_def tsInstall_def mainInstall_def)
  from l a e b scenarioA_completes d show ?thesis by blast
qed

subsection \<open>C8: declining the overwrite\<close>



subsection \<open>C9: the environment probes\<close>

text \<open>
  Claim C9 says that a probe returns its environment variable whenever the variable
  is set.  It fails when the variable is set to the empty string: the test
  \<open>if (process.env.GOOGLE_CLOUD_PROJECT)\<close> is then false, the command is run, and the
  probe returns the command's trimmed output instead of the variable's value.
\<close>

theorem probe_empty_variable_counterexample:
  "getenv emptyEnvOs ''GOOGLE_CLOUD_PROJECT'' = Some []
   \<and> fst (getGcpProject emptyEnvOs emptyDisk) = Returns ''acme-dev''
   \<and> fst (getGcpProject emptyEnvOs emptyDisk) \<noteq> Returns []"
proof -
  have e1: "getenv emptyEnvOs ''GOOGLE_CLOUD_PROJECT'' = Some []"
    by (simp add: emptyEnvOs_def)
  define out where "out = ''acme-dev'' @ [NL]"
  have e2: "execSync emptyEnvOs ''gcloud config get-value project'' = Inr out"
    by (simp add: emptyEnvOs_def out_def)
  have t: "js_trim out = ''acme-dev''"
    unfolding out_def js_trim_def isWhiteSpace_def NL_def by simp
  have t': "str_trim emptyEnvOs = js_trim"
    by (simp add: emptyEnvOs_def demoOs_def)
  have "fst (getGcpProject emptyEnvOs emptyDisk) = Returns (str_trim emptyEnvOs out)"
    by (simp add: getGcpProject_def envTruthy_def e1 e2 probe_eq)
  then have "fst (getGcpProject emptyEnvOs emptyDisk) = Returns ''acme-dev''"
    by (simp add: t t')
  with e1 show ?thesis by simp
qed

text \<open>
  Claim C9, amended.  For each of the two probes: if the variable is set to a
  non-empty value, the value is returned and no command is run; otherwise (unset, or
  set to the empty string) the command is run once and its trimmed output is returned;
  if the command fails the probe returns the empty string.  A probe always returns a
  value: it never throws and never ends the process.  The trimming is that of the
  JavaScript engine, \<open>str_trim\<close>.
\<close>

theorem probes_never_throw:
  "(\<forall>v. getenv os ''GOOGLE_CLOUD_PROJECT'' = Some v \<and> v \<noteq> [] \<longrightarrow>
        getGcpProject os s = (Returns v, s))
   \<and> (\<forall>out. (getenv os ''GOOGLE_CLOUD_PROJECT'' = None
               \<or> getenv os ''GOOGLE_CLOUD_PROJECT'' = Some [])
             \<and> execSync os ''gcloud config get-value project'' = Inr out \<longrightarrow>
        getGcpProject os s =
          (Returns (str_trim os out),
           \<lparr>files = files s,
            trace = trace s @ [ExecSync ''gcloud config get-value project'']\<rparr>))
   \<and> (\<forall>e. (getenv os ''GOOGLE_CLOUD_PROJECT'' = None
             \<or> getenv os ''GOOGLE_CLOUD_PROJECT'' = Some [])
           \<and> execSync os ''gcloud config get-value project'' = Inl e \<longrightarrow>
        getGcpProject os s =
          (Returns [],
           \<lparr>files = files s,
            trace = trace s @ [ExecSync ''gcloud config get-value project'']\<rparr>))
   \<and> (\<exists>v. fst (getGcpProject os s) = Returns v)
   \<and> (\<forall>v. getenv os ''GOOGLE_CLOUD_LOCATION'' = Some v \<and> v \<noteq> [] \<longrightarrow>
        getGcpRegion os s = (Returns v, s))
   \<and> (\<forall>out. (getenv os ''GOOGLE_CLOUD_LOCATION'' = None
               \<or> getenv os ''GOOGLE_CLOUD_LOCATION'' = Some [])
             \<and> execSync os ''gcloud config get-value compute/region'' = Inr out \<longrightarrow>
        getGcpRegion os s =
          (Returns (str_trim os out),
           \<lparr>files = files s,
            trace = trace s @ [ExecSync ''gcloud config get-value compute/region'']\<rparr>))
   \<and> (\<forall>e. (getenv os ''GOOGLE_CLOUD_LOCATION'' = None
             \<or> getenv os ''GOOGLE_CLOUD_LOCATION'' = Some [])
           \<and> execSync os ''gcloud config get-value compute/region'' = Inl e \<longrightarrow>
        getGcpRegion os s =
          (Returns [],
           \<lparr>files = files s,
            trace = trace s @ [ExecSync ''gcloud config get-value compute/region'']\<rparr>))
   \<and> (\<exists>v. fst (getGcpRegion os s) = Returns v)"
proof -
  have p: "getGcpProject os s = (case envTruthy (getenv os ''GOOGLE_CLOUD_PROJECT'') of
        Some v \<Rightarrow> io_return v s
      | None \<Rightarrow> try_catch (io_bind (sys_execSync os ''gcloud config get-value project'')
              (\<lambda>stdout. io_return (str_trim os stdout))) (\<lambda>error. io_return []) s)" for s
    by (simp add: getGcpProject_def split: option.splits)
  have r: "getGcpRegion os s = (case envTruthy (getenv os ''GOOGLE_CLOUD_LOCATION'') of
        Some v \<Rightarrow> io_return v s
      | None \<Rightarrow> try_catch (io_bind (sys_execSync os ''gcloud config get-value compute/region'')
              (\<lambda>stdout. io_return (str_trim os stdout))) (\<lambda>error. io_return []) s)" for s
    by (simp add: getGcpRegion_def split: option.splits)
  from probe_cases[of "getGcpProject os", OF p] probe_cases[of "getGcpRegion os", OF r]
  show ?thesis by (intro conjI) blast+
qed

text \<open>
  C9, sample inputs: a system where the variables are set, and the demo system, where
  they are not and \<open>gcloud\<close> is missing.
\<close>

theorem probes_never_throw_witness:
  "getenv setEnvOs ''GOOGLE_CLOUD_PROJECT'' = Some ''from-env''
   \<and> getGcpProject setEnvOs emptyDisk = (Returns ''from-env'', emptyDisk)
   \<and> getenv demoOs ''GOOGLE_CLOUD_LOCATION'' = None
   \<and> execSync demoOs ''gcloud config get-value compute/region''
       = Inl (JsError ''gcloud: command not found'')
   \<and> getGcpRegion demoOs emptyDisk =
       (Returns [],
        \<lparr>files = [], trace = [ExecSync ''gcloud config get-value compute/region'']\<rparr>)"
proof -
  have a: "getenv setEnvOs ''GOOGLE_CLOUD_PROJECT'' = Some ''from-env''"
    by (simp add: setEnvOs_def)
  have b: "getenv demoOs ''GOOGLE_CLOUD_LOCATION'' = None"
    by (simp add: demoOs_def)
  have c: "execSync demoOs ''gcloud config get-value compute/region''
       = Inl (JsError ''gcloud: command not found'')"
    by (simp add: demoOs_def)
  have t: "trace emptyDisk = []" "files emptyDisk = []"
    by (simp_all add: emptyDisk_def)
  from probes_never_throw[of setEnvOs emptyDisk] a
  have 1: "getGcpProject setEnvOs emptyDisk = (Returns ''from-env'', emptyDisk)"
    by simp
  from probes_never_throw[of demoOs emptyDisk] b c
  have 2: "getGcpRegion demoOs emptyDisk =
       (Returns [],
        \<lparr>files = [], trace = [ExecSync ''gcloud config get-value compute/region'']\<rparr>)"
    by (simp add: t)
  from a b c 1 2 show ?thesis by blast
qed

subsection \<open>C10: the hosted-mode-enabled line\<close>

text \<open>
  Claim C10 says that the hosted-mode-enabled line appears in the content of the
  environment file only if project and region are both non-empty.  It fails for a key
  that holds a newline followed by the text of that line: with neither project nor
  region, the content has the hosted-mode-enabled line as its second line.
\<close>

theorem hosted_line_injected_counterexample:
  "project injectedKey = [] \<and> region injectedKey = []
   \<and> generateEnvFile injectedKey =
       join_lines [''GOOGLE_API_KEY=k'', ''GOOGLE_GENAI_USE_VERTEXAI=1'',
                   ''GOOGLE_GENAI_USE_VERTEXAI=0'']
   \<and> hasHostedLine (generateEnvFile injectedKey)"
proof -
  have g: "generateEnvFile injectedKey =
       join_lines [''GOOGLE_API_KEY=k'', ''GOOGLE_GENAI_USE_VERTEXAI=1'',
                   ''GOOGLE_GENAI_USE_VERTEXAI=0'']"
    by (simp add: generateEnvFile_def envLines_def injectedKey_def)
  have "lines_of (join_lines [''GOOGLE_API_KEY=k'', ''GOOGLE_GENAI_USE_VERTEXAI=1'',
                   ''GOOGLE_GENAI_USE_VERTEXAI=0''])
        = [''GOOGLE_API_KEY=k'', ''GOOGLE_GENAI_USE_VERTEXAI=1'', ''GOOGLE_GENAI_USE_VERTEXAI=0'']"
    by (rule lines_of_join_lines) (simp_all add: NL_def)
  then have "hasHostedLine (generateEnvFile injectedKey)"
    by (simp add: g hasHostedLine_def hostedLine_def)
  with g show ?thesis by (simp add: injectedKey_def)
qed

text \<open>
  Claim C10, amended.  If project and region are both non-empty, the content of the
  environment file has the hosted-mode-enabled line.  When key, project and region
  contain no newline, the converse holds too, and a record with a project and no
  region has the project line in the content without the hosted-mode-enabled line,
  and likewise with a region and no project.  For the lines that \<open>generateEnvFile\<close>
  joins, all of this holds whatever the values contain.
\<close>

theorem hosted_line_iff_project_and_region:
  "(project options \<noteq> [] \<and> region options \<noteq> [] \<longrightarrow> hasHostedLine (generateEnvFile options))
   \<and> (noNL (apiKey options) \<and> noNL (project options) \<and> noNL (region options) \<longrightarrow>
        (hasHostedLine (generateEnvFile options)
           \<longleftrightarrow> project options \<noteq> [] \<and> region options \<noteq> [])
        \<and> (project options \<noteq> [] \<and> region options = [] \<longrightarrow>
             ''GOOGLE_CLOUD_PROJECT='' @ project options \<in> set (lines_of (generateEnvFile options))
             \<and> \<not> hasHostedLine (generateEnvFile options))
        \<and> (project options = [] \<and> region options \<noteq> [] \<longrightarrow>
             ''GOOGLE_CLOUD_LOCATION='' @ region options \<in> set (lines_of (generateEnvFile options))
             \<and> \<not> hasHostedLine (generateEnvFile options)))
   \<and> (hostedLine \<in> set (envLines options) \<longleftrightarrow> project options \<noteq> [] \<and> region options \<noteq> [])
   \<and> (project options \<noteq> [] \<and> region options = [] \<longrightarrow>
        ''GOOGLE_CLOUD_PROJECT='' @ project options \<in> set (envLines options)
        \<and> hostedLine \<notin> set (envLines options))
   \<and> (project options = [] \<and> region options \<noteq> [] \<longrightarrow>
        ''GOOGLE_CLOUD_LOCATION='' @ region options \<in> set (envLines options)
        \<and> hostedLine \<notin> set (envLines options))"
proof -
  have a: "hostedLine \<in> set (envLines options) \<longleftrightarrow> project options \<noteq> [] \<and> region options \<noteq> []"
    by (rule hosted_in_envLines)
  have b: "project options \<noteq> [] \<Longrightarrow> ''GOOGLE_CLOUD_PROJECT='' @ project options \<in> set (envLines options)"
    by (simp add: envLines_def)
  have c: "region options \<noteq> [] \<Longrightarrow> ''GOOGLE_CLOUD_LOCATION='' @ region options \<in> set (envLines options)"
    by (simp add: envLines_def)
  have d: "lines_of (generateEnvFile options) = envLines options"
    if "noNL (apiKey options)" "noNL (project options)" "noNL (region options)" "envLines options \<noteq> []"
    using that lines_of_generateEnvFile[of options] by simp
  have ne: "project options \<noteq> [] \<or> region options \<noteq> [] \<Longrightarrow> envLines options \<noteq> []"
    by (simp add: envLines_Nil)
  from a b c d ne hasHostedLine_generateEnvFile[of options] hosted_in_content[of options]
  show ?thesis by (intro conjI impI) (auto simp: hasHostedLine_def)
qed

text \<open>
  C10, sample input: scenario A with a project and no region.
\<close>

theorem hosted_line_iff_project_and_region_witness:
  "project projectOnly \<noteq> [] \<and> region projectOnly = []
   \<and> noNL (apiKey projectOnly) \<and> noNL (project projectOnly) \<and> noNL (region projectOnly)
   \<and> ''GOOGLE_CLOUD_PROJECT=acme'' \<in> set (envLines projectOnly)
   \<and> hostedLine \<notin> set (envLines projectOnly)
   \<and> ''GOOGLE_CLOUD_PROJECT=acme'' \<in> set (lines_of (generateEnvFile projectOnly))
   \<and> \<not> hasHostedLine (generateEnvFile projectOnly)"
proof -
  have f: "project projectOnly = ''acme''" "region projectOnly = []" "apiKey projectOnly = []"
    by (simp_all add: projectOnly_def scenarioA_def)
  have n: "noNL (apiKey projectOnly)" "noNL (project projectOnly)" "noNL (region projectOnly)"
    by (simp_all add: f noNL_def NL_def)
  from hosted_line_iff_project_and_region[of projectOnly] n show ?thesis
    by (simp add: f)
qed

end
